theory Spec2Isabelle
  imports Main "HOL-Library.AList" "HOL-Library.Char_ord" "HOL-Library.List_Lexorder"
begin

section \<open>Data model (memory-manager.ts, Types)\<close>

text \<open>
  The interfaces of memory-manager.ts, one record per interface. A field \<open>f\<close> of interface
  \<open>I\<close> is the record field \<open>i_f\<close> (the same field name occurs in several interfaces, and
  \<open>id\<close>, \<open>from\<close>, \<open>type\<close> are taken in Isabelle). An optional property \<open>f?: T\<close> is a
  \<open>T option\<close>, \<open>None\<close> for an absent or undefined property. Numbers are the integers the
  code stores in them (list lengths and indices, intensities).

  \<open>SpeechLevel\<close> is the union of four Korean string literals; the constructors are their
  romanisations: Banmal (informal), Jondaetmal (formal), Haeche (casual), Honhap (mixed).
\<close>

datatype SpeechLevel = Banmal | Jondaetmal | Haeche | Honhap

datatype RelationshipType =
  Romantic | Familial | Friendship | Antagonistic | Professional | Mentor | Complex

datatype CutType = Dialogue | Narration | Action | Internal

record EmotionPoint =
  ep_timestamp :: string
  ep_sceneId :: "string option"
  ep_emotion :: string
  ep_trigger :: string
  ep_intensity :: int

record Character =
  c_id :: string
  c_name :: string
  c_aliases :: "string list"
  c_arc :: string
  c_tone :: string
  c_speechLevel :: SpeechLevel
  c_keywords :: "string list"
  c_attitude :: string
  c_timeline :: "EmotionPoint list"
  c_notes :: string
  c_created :: string
  c_updated :: string
  c_taboo :: "string list option"
  c_emotional_baseline :: "string option"
  c_triggers :: "string list option"

record WorldRule =
  wr_id :: string
  wr_category :: string
  wr_description :: string

record Location =
  l_id :: string
  l_name :: string
  l_description :: string
  l_atmosphere :: string
  l_connectedTo :: "string list"

record WorldMemory =
  w_name :: string
  w_era :: string
  w_atmosphere :: string
  w_rules :: "WorldRule list"
  w_locations :: "Location list"
  w_culturalNotes :: "string list"
  w_notes :: string

record RelationshipEvent =
  re_timestamp :: string
  re_sceneId :: "string option"
  re_change :: string
  re_catalyst :: string

record Relationship =
  r_id :: string
  r_from :: string
  r_to :: string
  r_type :: RelationshipType
  r_dynamic :: string
  r_speechLevel :: "SpeechLevel option"
  r_evolution :: "RelationshipEvent list"
  r_notes :: "string option"
  r_created :: string

record Cut =
  cut_order :: int
  cut_type :: CutType
  cut_content :: string
  cut_character :: "string option"
  cut_emotionTag :: "string option"

record Scene =
  s_id :: string
  s_title :: string
  s_chapter :: "string option"
  s_order :: int
  s_characters :: "string list"
  s_emotionTags :: "string list"
  s_cuts :: "Cut list"
  s_narrationTone :: "string option"
  s_notes :: "string option"
  s_created :: string

record Theme =
  t_id :: string
  t_name :: string
  t_description :: string
  t_keywords :: "string list"
  t_relatedCharacters :: "string list"
  t_relatedScenes :: "string list"

record SynopsisState =
  sy_protagonistAttitude :: string
  sy_coreRelationships :: string
  sy_emotionalTheme :: string
  sy_genreVsRealEmotion :: string
  sy_endingAftertaste :: string
  sy_lastGenerated :: "string option"

record ProjectMeta =
  p_name :: string
  p_genre :: string
  p_created :: string
  p_updated :: string

text \<open>
  \<open>characters: Record<string, Character>\<close> is an association list of the object's own
  properties, in the order in which \<open>Object.values\<close> and \<open>Object.entries\<close> enumerate
  them (the alias scan of \<open>findCharacter\<close> depends on that order).
\<close>

record WriterMemory =
  version :: string
  project :: ProjectMeta
  characters :: "(string \<times> Character) list"
  world :: WorldMemory
  relationships :: "Relationship list"
  scenes :: "Scene list"
  themes :: "Theme list"
  synopsis :: SynopsisState

record ValidationResult =
  valid :: bool
  errors :: "string list"
  warnings :: "string list"

section \<open>Persistence layer (memory-manager.ts)\<close>

text \<open>
  The part of the file system the module touches: the directory \<open>.writer-memory\<close>, the file
  \<open>memory.json\<close> in it, the temporary file \<open>memory.json.tmp\<close> of the atomic write, and
  the directory \<open>backups\<close> as a listing from file name to content (\<open>None\<close>: the directory
  does not exist). \<open>writable\<close> is the one source of I/O faults: when it is false every
  \<open>mkdirSync\<close>, \<open>writeFileSync\<close>, \<open>renameSync\<close> and \<open>unlinkSync\<close> throws.

  \<open>has_require\<close> says how the module was loaded. The file is written with \<open>import\<close> and
  \<open>export\<close>, and \<open>pruneBackups\<close> calls \<open>require("fs").unlinkSync\<close>; \<open>unlinkSync\<close> is
  not among the imports. \<open>require\<close> is bound when the file is compiled to or loaded as a
  CommonJS module (\<open>has_require\<close> true); loaded as an ES module it is not, and evaluating
  it throws a ReferenceError.

  A file's text is represented by what \<open>JSON.parse\<close> makes of it: the document it denotes,
  or text that \<open>JSON.parse\<close> rejects. \<open>JSON.stringify\<close> and \<open>JSON.parse\<close> are the
  platform's; on documents of the types above (strings, integers, arrays, objects, absent
  properties) parsing the stringified document gives the document back.
\<close>

datatype file_text = JsonText WriterMemory | Unparsable string

record fs =
  writable :: bool
  has_require :: bool
  mem_dir :: bool
  mem_file :: "file_text option"
  tmp_file :: "file_text option"
  backup_dir :: "(string \<times> file_text) list option"

definition JSON_stringify :: "WriterMemory \<Rightarrow> file_text" where
  "JSON_stringify memory = JsonText memory"

fun JSON_parse :: "file_text \<Rightarrow> WriterMemory option" where
  "JSON_parse (JsonText memory) = Some memory"
| "JSON_parse (Unparsable raw) = None"

definition MAX_BACKUPS :: nat where
  "MAX_BACKUPS = 20"

definition getBackupPath :: string where
  "getBackupPath = ''.writer-memory/backups''"

text \<open>The clock readings of one \<open>saveMemory\<close>: \<open>new Date().toISOString()\<close> in
  \<open>createBackup\<close> and \<open>now()\<close> in \<open>saveMemory\<close>.\<close>

record save_clock =
  backup_iso :: string
  now_iso :: string

definition loadMemory :: "fs \<Rightarrow> WriterMemory option" where
  "loadMemory s = (case mem_file s of None \<Rightarrow> None | Some raw \<Rightarrow> JSON_parse raw)"

definition startsWith :: "'a list \<Rightarrow> 'a list \<Rightarrow> bool" where
  "startsWith f p = (take (length p) f = p)"

definition endsWith :: "'a list \<Rightarrow> 'a list \<Rightarrow> bool" where
  "endsWith f p = (drop (length f - length p) f = p)"

definition is_backup_name :: "string \<Rightarrow> bool" where
  "is_backup_name f = (startsWith f ''memory-'' \<and> endsWith f ''.json'')"

text \<open>The \<open>while (files.length > MAX_BACKUPS)\<close> loop of \<open>pruneBackups\<close>: \<open>files.shift()\<close>
  takes the first name, \<open>unlinkSync\<close> removes that entry of the directory.\<close>

fun unlink_oldest :: "string list \<Rightarrow> (string \<times> file_text) list \<Rightarrow> (string \<times> file_text) list" where
  "unlink_oldest [] d = d"
| "unlink_oldest (oldest # rest) d =
     (if length (oldest # rest) > MAX_BACKUPS
      then unlink_oldest rest (AList.delete oldest d)
      else d)"

text \<open>\<open>pruneBackups\<close>: the names of the directory that start with \<open>memory-\<close> and end with
  \<open>.json\<close>, sorted (JavaScript's default sort: by code units, lexicographic). Every fault
  (no directory to read, \<open>require\<close> not bound, an unlink that throws) is swallowed by the
  \<open>catch\<close>; the first fault ends the loop, so nothing is deleted then.\<close>

definition pruneBackups :: "fs \<Rightarrow> fs" where
  "pruneBackups s =
     (case backup_dir s of
        None \<Rightarrow> s
      | Some d \<Rightarrow>
          (let files = sort (filter is_backup_name (map fst d))
           in if has_require s \<and> writable s
              then s\<lparr>backup_dir := Some (unlink_oldest files d)\<rparr>
              else s))"

definition backup_file_name :: "string \<Rightarrow> string" where
  "backup_file_name stamp =
     ''memory-'' @ map (\<lambda>c. if c = CHR '':'' \<or> c = CHR ''.'' then CHR ''-'' else c) stamp @ ''.json''"

text \<open>\<open>createBackup\<close> returns the backup's path, or the empty string when a step threw.\<close>

definition createBackup :: "string \<Rightarrow> fs \<Rightarrow> WriterMemory \<Rightarrow> fs \<times> string" where
  "createBackup stamp s memory =
     (case backup_dir s of
        None \<Rightarrow>
          (if writable s
           then (pruneBackups (s\<lparr>mem_dir := True,
                   backup_dir := Some [(backup_file_name stamp, JSON_stringify memory)]\<rparr>),
                 getBackupPath @ ''/'' @ backup_file_name stamp)
           else (s, ''''))
      | Some d \<Rightarrow>
          (if writable s
           then (pruneBackups (s\<lparr>backup_dir :=
                   Some (AList.update (backup_file_name stamp) (JSON_stringify memory) d)\<rparr>),
                 getBackupPath @ ''/'' @ backup_file_name stamp)
           else (s, '''')))"

text \<open>
  \<open>saveMemory\<close> returns the new file system, the caller's document as the call leaves it
  (\<open>memory.project.updated\<close> is assigned in place), and the boolean result. The backup of
  the previous file is skipped when that file does not parse (the inner \<open>try\<close>); its result
  is ignored.
\<close>

definition saveMemory :: "save_clock \<Rightarrow> fs \<Rightarrow> WriterMemory \<Rightarrow> fs \<times> WriterMemory \<times> bool" where
  "saveMemory clk s memory =
     (if \<not> mem_dir s \<and> \<not> writable s then (s, memory, False)
      else
        (let s1 = s\<lparr>mem_dir := True\<rparr>;
             s2 = (case mem_file s1 of
                     None \<Rightarrow> s1
                   | Some existing \<Rightarrow>
                       (case JSON_parse existing of
                          None \<Rightarrow> s1
                        | Some existingMemory \<Rightarrow> fst (createBackup (backup_iso clk) s1 existingMemory)));
             memory' = memory\<lparr>project := (project memory)\<lparr>p_updated := now_iso clk\<rparr>\<rparr>
         in if writable s2
            then (s2\<lparr>tmp_file := None, mem_file := Some (JSON_stringify memory')\<rparr>, memory', True)
            else (s2, memory', False)))"

text \<open>
  \<open>initMemory\<close> has no \<open>try\<close>: a \<open>mkdirSync\<close> that throws leaves the function by the
  exception (\<open>None\<close>). The result of \<open>saveMemory\<close> is ignored.
\<close>

definition fresh_memory :: "string \<Rightarrow> string \<Rightarrow> string \<Rightarrow> WriterMemory" where
  "fresh_memory timestamp projectName genre =
     \<lparr>version = ''1.0'',
      project = \<lparr>p_name = projectName, p_genre = genre, p_created = timestamp, p_updated = timestamp\<rparr>,
      characters = [],
      world = \<lparr>w_name = [], w_era = [], w_atmosphere = [], w_rules = [], w_locations = [],
               w_culturalNotes = [], w_notes = []\<rparr>,
      relationships = [],
      scenes = [],
      themes = [],
      synopsis = \<lparr>sy_protagonistAttitude = [], sy_coreRelationships = [],
                  sy_emotionalTheme = [], sy_genreVsRealEmotion = [],
                  sy_endingAftertaste = [], sy_lastGenerated = None\<rparr>\<rparr>"

definition initMemory ::
  "string \<Rightarrow> save_clock \<Rightarrow> fs \<Rightarrow> string \<Rightarrow> string \<Rightarrow> fs \<times> WriterMemory option" where
  "initMemory timestamp clk s projectName genre =
     (if (\<not> mem_dir s \<or> backup_dir s = None) \<and> \<not> writable s then (s, None)
      else
        (let s1 = s\<lparr>mem_dir := True,
                      backup_dir := Some (case backup_dir s of None \<Rightarrow> [] | Some d \<Rightarrow> d)\<rparr>;
             saved = saveMemory clk s1 (fresh_memory timestamp projectName genre)
         in (fst saved, Some (fst (snd saved)))))"

subsection \<open>ID generation\<close>

text \<open>\<open>generateId\<close> reads the clock (\<open>Math.floor(Date.now() / 1000)\<close>, here \<open>ts\<close>) and the
  random source (\<open>Math.random().toString(36).slice(2, 5)\<close>, here \<open>rand\<close>).\<close>

fun decimal :: "nat \<Rightarrow> string" where
  "decimal n = (if n < 10 then [char_of (48 + n)] else decimal (n div 10) @ [char_of (48 + n mod 10)])"

definition number_string :: "int \<Rightarrow> string" where
  "number_string i = (if i < 0 then ''-'' @ decimal (nat (- i)) else decimal (nat i))"

definition generateId :: "string \<Rightarrow> nat \<Rightarrow> string \<Rightarrow> string" where
  "generateId prefix ts rand = prefix @ ''_'' @ decimal ts @ ''_'' @ rand"

subsection \<open>Validation\<close>

text \<open>
  \<open>validateMemory\<close> pushes onto two lists while it walks the document. Each list is given
  here as the concatenation of what each part of the walk pushes onto it, in the order of
  the walk. \<open>!x\<close> on a string is \<open>x = []\<close>.
\<close>

definition character_errors :: "string \<times> Character \<Rightarrow> string list" where
  "character_errors e =
     (case e of (id', char) \<Rightarrow>
        (if c_id char = id' then []
         else [''Character key \"'' @ id' @ ''\" does not match character.id \"'' @ c_id char @ ''\"''])
        @ (if c_name char = [] then [''Character \"'' @ id' @ ''\" has no name''] else []))"

definition emotion_point_warnings :: "WriterMemory \<Rightarrow> Character \<Rightarrow> EmotionPoint \<Rightarrow> string list" where
  "emotion_point_warnings memory char ep =
     (if ep_intensity ep < 1 \<or> ep_intensity ep > 5
      then [''Character \"'' @ c_name char @ ''\" has emotion point with intensity ''
              @ number_string (ep_intensity ep) @ '' (expected 1-5)'']
      else [])
     @ (case ep_sceneId ep of
          None \<Rightarrow> []
        | Some sid \<Rightarrow>
            (if sid = [] \<or> list_ex (\<lambda>s. s_id s = sid) (scenes memory) then []
             else [''Character \"'' @ c_name char @ ''\" references non-existent scene \"''
                     @ sid @ ''\" in timeline'']))"

definition character_warnings :: "WriterMemory \<Rightarrow> string \<times> Character \<Rightarrow> string list" where
  "character_warnings memory e =
     concat (map (emotion_point_warnings memory (snd e)) (c_timeline (snd e)))"

definition relationship_errors :: "string list \<Rightarrow> Relationship \<Rightarrow> string list" where
  "relationship_errors charIds rel =
     (if r_from rel \<in> set charIds then []
      else [''Relationship \"'' @ r_id rel @ ''\" references non-existent character \"''
              @ r_from rel @ ''\"''])
     @ (if r_to rel \<in> set charIds then []
        else [''Relationship \"'' @ r_id rel @ ''\" references non-existent character \"''
                @ r_to rel @ ''\"''])"

definition relationship_warnings :: "Relationship \<Rightarrow> string list" where
  "relationship_warnings rel =
     (if r_from rel = r_to rel
      then [''Relationship \"'' @ r_id rel @ ''\" is self-referential (from === to === \"''
              @ r_from rel @ ''\")'']
      else [])"

text \<open>The scene loop keeps the set \<open>sceneIds\<close> of the ids seen so far.\<close>

fun scene_errors :: "string list \<Rightarrow> Scene list \<Rightarrow> string list" where
  "scene_errors sceneIds [] = []"
| "scene_errors sceneIds (scene # rest) =
     (if s_id scene \<in> set sceneIds then [''Duplicate scene ID: \"'' @ s_id scene @ ''\"''] else [])
     @ scene_errors (s_id scene # sceneIds) rest"

definition scene_warnings :: "string list \<Rightarrow> Scene \<Rightarrow> string list" where
  "scene_warnings charIds scene =
     concat (map (\<lambda>charId.
        if charId \<in> set charIds then []
        else [''Scene \"'' @ s_title scene @ ''\" references non-existent character \"''
                @ charId @ ''\"'']) (s_characters scene))
     @ (if s_cuts scene = [] then [''Scene \"'' @ s_title scene @ ''\" has no cuts''] else [])"

definition theme_warnings :: "string list \<Rightarrow> string list \<Rightarrow> Theme \<Rightarrow> string list" where
  "theme_warnings charIds sceneIds theme =
     concat (map (\<lambda>charId.
        if charId \<in> set charIds then []
        else [''Theme \"'' @ t_name theme @ ''\" references non-existent character \"''
                @ charId @ ''\"'']) (t_relatedCharacters theme))
     @ concat (map (\<lambda>sid.
        if sid \<in> set sceneIds then []
        else [''Theme \"'' @ t_name theme @ ''\" references non-existent scene \"''
                @ sid @ ''\"'']) (t_relatedScenes theme))"

definition validation_errors :: "WriterMemory \<Rightarrow> string list" where
  "validation_errors memory =
     (if version memory = ''1.0'' then []
      else [''Unsupported version: \"'' @ version memory @ ''\" (expected \"1.0\")''])
     @ (if p_name (project memory) = [] then [''Project name is empty''] else [])
     @ (if p_created (project memory) = [] then [''Project created timestamp is missing''] else [])
     @ concat (map character_errors (characters memory))
     @ concat (map (relationship_errors (map fst (characters memory))) (relationships memory))
     @ scene_errors [] (scenes memory)"

definition validation_warnings :: "WriterMemory \<Rightarrow> string list" where
  "validation_warnings memory =
     (if p_genre (project memory) = [] then [''Project genre is empty''] else [])
     @ concat (map (character_warnings memory) (characters memory))
     @ concat (map relationship_warnings (relationships memory))
     @ concat (map (scene_warnings (map fst (characters memory))) (scenes memory))
     @ concat (map (theme_warnings (map fst (characters memory)) (map s_id (scenes memory)))
                 (themes memory))"

definition validateMemory :: "WriterMemory \<Rightarrow> ValidationResult" where
  "validateMemory memory =
     \<lparr>valid = (validation_errors memory = []),
      errors = validation_errors memory,
      warnings = validation_warnings memory\<rparr>"

section \<open>Character tracking module\<close>

subsection \<open>Property access on the character map\<close>

text \<open>
  \<open>memory.characters\<close> is a plain object: \<open>initMemory\<close> writes \<open>{}\<close> and \<open>JSON.parse\<close>
  makes one. Reading \<open>memory.characters[k]\<close> finds the own property \<open>k\<close>, and for a \<open>k\<close>
  that is no own property the member \<open>k\<close> of \<open>Object.prototype\<close>, if there is one. These
  members are the platform's (ECMAScript, with its Annex B); each is a function or, for
  \<open>__proto__\<close>, the prototype object, so each is truthy and none has a property
  \<open>aliases\<close>.
\<close>

definition Object_prototype_names :: "string list" where
  "Object_prototype_names =
     [''constructor'', ''__defineGetter__'', ''__defineSetter__'', ''hasOwnProperty'',
      ''__lookupGetter__'', ''__lookupSetter__'', ''isPrototypeOf'', ''propertyIsEnumerable'',
      ''toString'', ''valueOf'', ''__proto__'', ''toLocaleString'']"

datatype 'a property = Own 'a | Inherited | Undefined

definition get_property :: "(string \<times> 'a) list \<Rightarrow> string \<Rightarrow> 'a property" where
  "get_property obj k =
     (case map_of obj k of
        Some v \<Rightarrow> Own v
      | None \<Rightarrow> if k \<in> set Object_prototype_names then Inherited else Undefined)"

text \<open>
  The own properties of an object are enumerated with the array indices first, in
  ascending numeric order, and then the other string keys in the order in which they
  were created. An array index is the canonical decimal numeral of an integer below
  \<open>2^32 - 1\<close>. \<open>set_property\<close> is the assignment \<open>obj[k] = v\<close>: the value of an own
  property is replaced where it stands, a new property takes its place in that order.
\<close>

definition is_digit :: "char \<Rightarrow> bool" where
  "is_digit c = (48 \<le> (of_char c :: nat) \<and> (of_char c :: nat) \<le> 57)"

definition digits_value :: "string \<Rightarrow> nat" where
  "digits_value k = foldl (\<lambda>n c. 10 * n + (of_char c - 48)) 0 k"

definition array_index :: "string \<Rightarrow> nat option" where
  "array_index k =
     (if k = [] \<or> list_ex (\<lambda>c. \<not> is_digit c) k then None
      else if 1 < length k \<and> hd k = CHR ''0'' then None
      else if digits_value k < 4294967295 then Some (digits_value k)
      else None)"

fun insert_property :: "string \<Rightarrow> 'a \<Rightarrow> (string \<times> 'a) list \<Rightarrow> (string \<times> 'a) list" where
  "insert_property k v [] = [(k, v)]"
| "insert_property k v (e # rest) =
     (case array_index k of
        None \<Rightarrow> e # insert_property k v rest
      | Some i \<Rightarrow>
          (case array_index (fst e) of
             None \<Rightarrow> (k, v) # e # rest
           | Some j \<Rightarrow> if i < j then (k, v) # e # rest else e # insert_property k v rest))"

definition set_property :: "string \<Rightarrow> 'a \<Rightarrow> (string \<times> 'a) list \<Rightarrow> (string \<times> 'a) list" where
  "set_property k v obj =
     (if map_of obj k = None then insert_property k v obj else AList.update k v obj)"

subsection \<open>Characters and aliases\<close>

text \<open>
  \<open>findCharacter\<close> returns a reference to an object. For a character of the loaded
  document the model returns the property key that holds the object together with the
  object (\<open>Found\<close>); an assignment through the reference is an update of the entry under
  that key. When \<open>nameOrAlias\<close> is no own key and names a member of \<open>Object.prototype\<close>,
  the direct lookup is truthy and that member is returned as if it were a character
  (\<open>Prototype_member\<close>); the alias scan is not reached.
\<close>

datatype character_ref = Found string Character | Prototype_member | Not_found

definition findCharacter :: "WriterMemory \<Rightarrow> string \<Rightarrow> character_ref" where
  "findCharacter memory nameOrAlias =
     (case get_property (characters memory) nameOrAlias of
        Own char \<Rightarrow> Found nameOrAlias char
      | Inherited \<Rightarrow> Prototype_member
      | Undefined \<Rightarrow>
          (case find (\<lambda>e. nameOrAlias \<in> set (c_aliases (snd e))) (characters memory) of
             None \<Rightarrow> Not_found
           | Some e \<Rightarrow> Found (fst e) (snd e)))"

record CharacterOptions =
  co_arc :: "string option"
  co_tone :: "string option"
  co_speechLevel :: "SpeechLevel option"
  co_attitude :: "string option"
  co_keywords :: "string list option"
  co_notes :: "string option"

text \<open>\<open>x || d\<close> on an optional string: \<open>d\<close> when \<open>x\<close> is undefined or empty.\<close>

definition or_default :: "string option \<Rightarrow> string \<Rightarrow> string" where
  "or_default x d = (case x of None \<Rightarrow> d | Some v \<Rightarrow> if v = [] then d else v)"

text \<open>
  The environment of \<open>addCharacter\<close>: \<open>id'\<close> is what \<open>generateId('char')\<close> returned,
  \<open>created\<close> and \<open>updated\<close> the two readings of \<open>now()\<close>. The result of \<open>saveMemory\<close> is
  ignored, as in every operation of this module. The test
  \<open>if (memory.characters[name])\<close> is true for an own key and for the name of a member of
  \<open>Object.prototype\<close>: in both cases null is returned and nothing is written.
\<close>

definition addCharacter ::
  "string \<Rightarrow> string \<Rightarrow> string \<Rightarrow> save_clock \<Rightarrow> fs \<Rightarrow> string \<Rightarrow> CharacterOptions
     \<Rightarrow> fs \<times> Character option" where
  "addCharacter id' created updated clk s name' opts =
     (case loadMemory s of
        None \<Rightarrow> (s, None)
      | Some memory \<Rightarrow>
          (case get_property (characters memory) name' of
             Own existing \<Rightarrow> (s, None)
           | Inherited \<Rightarrow> (s, None)
           | Undefined \<Rightarrow>
               (let character =
                      \<lparr>c_id = id', c_name = name', c_aliases = [],
                       c_arc = or_default (co_arc opts) [],
                       c_tone = or_default (co_tone opts) [],
                       c_speechLevel = (case co_speechLevel opts of None \<Rightarrow> Banmal | Some l \<Rightarrow> l),
                       c_keywords = (case co_keywords opts of None \<Rightarrow> [] | Some ks \<Rightarrow> ks),
                       c_attitude = or_default (co_attitude opts) [],
                       c_timeline = [],
                       c_notes = or_default (co_notes opts) [],
                       c_created = created, c_updated = updated,
                       c_taboo = None, c_emotional_baseline = None, c_triggers = None\<rparr>;
                    memory' = memory\<lparr>characters := set_property name' character (characters memory)\<rparr>
                in (fst (saveMemory clk s memory'), Some character))))"

text \<open>
  \<open>addAlias\<close> and \<open>removeAlias\<close> have no \<open>try\<close>. On a member of \<open>Object.prototype\<close>
  returned by \<open>findCharacter\<close>, \<open>character.aliases\<close> is undefined and the call of
  \<open>includes\<close> or \<open>indexOf\<close> on it throws a TypeError, which leaves the function
  (\<open>Inl TypeError\<close>); \<open>Inr\<close> carries the boolean the function returns.
\<close>

datatype js_error = TypeError

definition addAlias ::
  "string \<Rightarrow> save_clock \<Rightarrow> fs \<Rightarrow> string \<Rightarrow> string \<Rightarrow> fs \<times> (js_error + bool)" where
  "addAlias updated clk s characterName alias =
     (case loadMemory s of
        None \<Rightarrow> (s, Inr False)
      | Some memory \<Rightarrow>
          (case findCharacter memory characterName of
             Not_found \<Rightarrow> (s, Inr False)
           | Prototype_member \<Rightarrow> (s, Inl TypeError)
           | Found key character \<Rightarrow>
               (if alias \<notin> set (c_aliases character)
                then
                  (let character' = character\<lparr>c_aliases := c_aliases character @ [alias],
                                               c_updated := updated\<rparr>;
                       memory' = memory\<lparr>characters := AList.update key character' (characters memory)\<rparr>
                   in (fst (saveMemory clk s memory'), Inr True))
                else (s, Inr True))))"

text \<open>\<open>aliases.indexOf(alias)\<close> and \<open>aliases.splice(idx, 1)\<close>: the first occurrence is
  removed.\<close>

definition removeAlias ::
  "string \<Rightarrow> save_clock \<Rightarrow> fs \<Rightarrow> string \<Rightarrow> string \<Rightarrow> fs \<times> (js_error + bool)" where
  "removeAlias updated clk s characterName alias =
     (case loadMemory s of
        None \<Rightarrow> (s, Inr False)
      | Some memory \<Rightarrow>
          (case findCharacter memory characterName of
             Not_found \<Rightarrow> (s, Inr False)
           | Prototype_member \<Rightarrow> (s, Inl TypeError)
           | Found key character \<Rightarrow>
               (if alias \<in> set (c_aliases character)
                then
                  (let character' = character\<lparr>c_aliases := remove1 alias (c_aliases character),
                                               c_updated := updated\<rparr>;
                       memory' = memory\<lparr>characters := AList.update key character' (characters memory)\<rparr>
                   in (fst (saveMemory clk s memory'), Inr True))
                else (s, Inr False))))"

subsection \<open>Dialogue validation: detectSpeechLevel\<close>

text \<open>
  A JavaScript string is a sequence of UTF-16 code units, a natural number each; the
  regular expressions (no \<open>u\<close> or \<open>m\<close> flag) match code units, and \<open>$\<close> matches at the
  end of the string only. The Hangul of the patterns, by code unit:
  formal \<open>U+C694 $ | U+C2B5 U+B2C8 U+B2E4 $ | U+C138 U+C694 $ | U+C2ED U+C2DC U+C624 $\<close>,
  informal \<open>U+C57C $ | U+C544 $ | U+C5B4 $ | U+C9C0 $ | U+B294 U+B370 $\<close>,
  casual \<open>U+C784 $ | U+C74C $ | U+314B | U+314E $\<close> (the third alternative has no \<open>$\<close>:
  it matches anywhere in the sentence).
\<close>

definition formal :: "nat list \<Rightarrow> bool" where
  "formal t = (endsWith t [0xC694] \<or> endsWith t [0xC2B5, 0xB2C8, 0xB2E4]
     \<or> endsWith t [0xC138, 0xC694] \<or> endsWith t [0xC2ED, 0xC2DC, 0xC624])"

definition informal :: "nat list \<Rightarrow> bool" where
  "informal t = (endsWith t [0xC57C] \<or> endsWith t [0xC544] \<or> endsWith t [0xC5B4]
     \<or> endsWith t [0xC9C0] \<or> endsWith t [0xB294, 0xB370])"

definition casual :: "nat list \<Rightarrow> bool" where
  "casual t = (endsWith t [0xC784] \<or> endsWith t [0xC74C] \<or> 0x314B \<in> set t
     \<or> endsWith t [0x314E])"

text \<open>\<open>text.split(/[.!?]/)\<close>: the pieces between the separators, empty pieces included.\<close>

fun split_sentences :: "nat list \<Rightarrow> nat list list" where
  "split_sentences [] = [[]]"
| "split_sentences (c # cs) =
     (if c = 0x2E \<or> c = 0x21 \<or> c = 0x3F then [] # split_sentences cs
      else (case split_sentences cs of
              [] \<Rightarrow> [[c]]
            | piece # pieces \<Rightarrow> (c # piece) # pieces))"

text \<open>\<open>String.prototype.trim\<close> strips ECMAScript's white space and line terminators.\<close>

definition js_space :: "nat \<Rightarrow> bool" where
  "js_space c = (c = 0x09 \<or> c = 0x0A \<or> c = 0x0B \<or> c = 0x0C \<or> c = 0x0D \<or> c = 0x20
     \<or> c = 0xA0 \<or> c = 0x1680 \<or> (0x2000 \<le> c \<and> c \<le> 0x200A) \<or> c = 0x2028 \<or> c = 0x2029
     \<or> c = 0x202F \<or> c = 0x205F \<or> c = 0x3000 \<or> c = 0xFEFF)"

definition trim :: "nat list \<Rightarrow> nat list" where
  "trim s = rev (dropWhile js_space (rev (dropWhile js_space s)))"

definition sentences_of :: "nat list \<Rightarrow> nat list list" where
  "sentences_of text' = filter (\<lambda>s. trim s \<noteq> []) (split_sentences text')"

definition formalCnt :: "nat list \<Rightarrow> nat" where
  "formalCnt text' = length (filter (\<lambda>s. formal (trim s)) (sentences_of text'))"

definition informalCnt :: "nat list \<Rightarrow> nat" where
  "informalCnt text' = length (filter (\<lambda>s. informal (trim s)) (sentences_of text'))"

definition casualCnt :: "nat list \<Rightarrow> nat" where
  "casualCnt text' = length (filter (\<lambda>s. casual (trim s)) (sentences_of text'))"

definition detectSpeechLevel :: "nat list \<Rightarrow> SpeechLevel" where
  "detectSpeechLevel text' =
     (if formalCnt text' > informalCnt text' \<and> formalCnt text' > casualCnt text' then Jondaetmal
      else if casualCnt text' > informalCnt text' then Haeche
      else if informalCnt text' > 0 then Banmal
      else Honhap)"

section \<open>Relationship graph module\<close>

text \<open>The predicate of every \<open>find\<close> and \<open>findIndex\<close> of the module.\<close>

definition same_pair :: "string \<Rightarrow> string \<Rightarrow> Relationship \<Rightarrow> bool" where
  "same_pair char1Name char2Name r =
     ((r_from r = char1Name \<and> r_to r = char2Name) \<or> (r_from r = char2Name \<and> r_to r = char1Name))"

text \<open>
  \<open>getRelationship\<close> loads the document itself and returns an object of that load. Every
  \<open>loadMemory\<close> parses the file anew, so the object is shared with no other load.
\<close>

definition getRelationship :: "fs \<Rightarrow> string \<Rightarrow> string \<Rightarrow> Relationship option" where
  "getRelationship s char1Name char2Name =
     (case loadMemory s of
        None \<Rightarrow> None
      | Some memory \<Rightarrow> find (same_pair char1Name char2Name) (relationships memory))"

record RelationshipOptions =
  ro_dynamic :: "string option"
  ro_speechLevel :: "SpeechLevel option"
  ro_notes :: "string option"

definition addRelationship ::
  "string \<Rightarrow> string \<Rightarrow> save_clock \<Rightarrow> fs \<Rightarrow> string \<Rightarrow> string \<Rightarrow> RelationshipType
     \<Rightarrow> RelationshipOptions \<Rightarrow> fs \<times> Relationship option" where
  "addRelationship id' created clk s char1Name char2Name type' opts =
     (case loadMemory s of
        None \<Rightarrow> (s, None)
      | Some memory \<Rightarrow>
          (case find (same_pair char1Name char2Name) (relationships memory) of
             Some existing \<Rightarrow> (s, None)
           | None \<Rightarrow>
               (let relationship =
                      \<lparr>r_id = id', r_from = char1Name, r_to = char2Name, r_type = type',
                       r_dynamic = or_default (ro_dynamic opts) ''stable'',
                       r_speechLevel = ro_speechLevel opts,
                       r_evolution = [],
                       r_notes = ro_notes opts,
                       r_created = created\<rparr>;
                    memory' = memory\<lparr>relationships := relationships memory @ [relationship]\<rparr>
                in (fst (saveMemory clk s memory'), Some relationship))))"

text \<open>
  \<open>updates: Partial<Omit<Relationship, 'id' | 'from' | 'to' | 'created'>>\<close>: \<open>None\<close> is a
  property the caller left out. \<open>Object.assign\<close> copies the properties that are there.
\<close>

record RelationshipUpdates =
  ru_type :: "RelationshipType option"
  ru_dynamic :: "string option"
  ru_speechLevel :: "SpeechLevel option option"
  ru_evolution :: "RelationshipEvent list option"
  ru_notes :: "string option option"

definition assign_relationship :: "Relationship \<Rightarrow> RelationshipUpdates \<Rightarrow> Relationship" where
  "assign_relationship r u =
     r\<lparr>r_type := (case ru_type u of None \<Rightarrow> r_type r | Some v \<Rightarrow> v),
       r_dynamic := (case ru_dynamic u of None \<Rightarrow> r_dynamic r | Some v \<Rightarrow> v),
       r_speechLevel := (case ru_speechLevel u of None \<Rightarrow> r_speechLevel r | Some v \<Rightarrow> v),
       r_evolution := (case ru_evolution u of None \<Rightarrow> r_evolution r | Some v \<Rightarrow> v),
       r_notes := (case ru_notes u of None \<Rightarrow> r_notes r | Some v \<Rightarrow> v)\<rparr>"

text \<open>
  \<open>updateRelationship\<close> loads \<open>memory\<close>, then takes \<open>relationship\<close> from
  \<open>getRelationship\<close>, an object of a second load; \<open>Object.assign\<close> changes that object, and
  \<open>saveMemory(memory)\<close> writes the first load.
\<close>

definition updateRelationship ::
  "save_clock \<Rightarrow> fs \<Rightarrow> string \<Rightarrow> string \<Rightarrow> RelationshipUpdates \<Rightarrow> fs \<times> Relationship option" where
  "updateRelationship clk s char1Name char2Name updates =
     (case loadMemory s of
        None \<Rightarrow> (s, None)
      | Some memory \<Rightarrow>
          (case getRelationship s char1Name char2Name of
             None \<Rightarrow> (s, None)
           | Some relationship \<Rightarrow>
               (let relationship' = assign_relationship relationship updates
                in (fst (saveMemory clk s memory), Some relationship'))))"

text \<open>
  \<open>addRelationshipEvent\<close> pushes the event onto \<open>relationship.evolution\<close>, where
  \<open>relationship\<close> is an object of the load inside \<open>getRelationship\<close>; it then loads
  \<open>memory\<close> again and saves that. \<open>timestamp\<close> is the reading of \<open>now()\<close>.
\<close>

definition addRelationshipEvent ::
  "string \<Rightarrow> save_clock \<Rightarrow> fs \<Rightarrow> string \<Rightarrow> string \<Rightarrow> string \<Rightarrow> string \<Rightarrow> string option
     \<Rightarrow> fs \<times> RelationshipEvent option" where
  "addRelationshipEvent timestamp clk s char1Name char2Name change catalyst sceneId =
     (case getRelationship s char1Name char2Name of
        None \<Rightarrow> (s, None)
      | Some relationship \<Rightarrow>
          (let event = \<lparr>re_timestamp = timestamp, re_sceneId = sceneId, re_change = change,
                        re_catalyst = catalyst\<rparr>;
               relationship' = relationship\<lparr>r_evolution := r_evolution relationship @ [event]\<rparr>
           in (case loadMemory s of
                 None \<Rightarrow> (s, None)
               | Some memory \<Rightarrow> (fst (saveMemory clk s memory), Some event))))"

section \<open>Scene organizer module\<close>

text \<open>
  Every function of this module runs in a \<open>try\<close> and does not test the result of
  \<open>loadMemory\<close>: on \<open>null\<close> the first property read throws and the \<open>catch\<close> returns
  the failure value. \<open>findIndex\<close> and \<open>splice(index, 1)\<close> are the array methods.
\<close>

fun findIndex :: "('a \<Rightarrow> bool) \<Rightarrow> 'a list \<Rightarrow> nat option" where
  "findIndex P [] = None"
| "findIndex P (x # xs) = (if P x then Some 0 else map_option Suc (findIndex P xs))"

definition splice1 :: "nat \<Rightarrow> 'a list \<Rightarrow> 'a list" where
  "splice1 i xs = take i xs @ drop (Suc i) xs"

text \<open>\<open>findSceneById\<close> returns a reference to a scene of the loaded document: the model
  returns its index in \<open>memory.scenes\<close> with the object.\<close>

definition findSceneById :: "WriterMemory \<Rightarrow> string \<Rightarrow> (nat \<times> Scene) option" where
  "findSceneById memory id' =
     (case findIndex (\<lambda>s. s_id s = id') (scenes memory) of
        None \<Rightarrow> None
      | Some i \<Rightarrow> Some (i, scenes memory ! i))"

record SceneOptions =
  so_chapter :: "string option"
  so_characters :: "string list option"
  so_emotionTags :: "string list option"
  so_narrationTone :: "string option"
  so_notes :: "string option"

definition addScene ::
  "string \<Rightarrow> string \<Rightarrow> save_clock \<Rightarrow> fs \<Rightarrow> string \<Rightarrow> SceneOptions \<Rightarrow> fs \<times> Scene option" where
  "addScene id' created clk s title opts =
     (case loadMemory s of
        None \<Rightarrow> (s, None)
      | Some memory \<Rightarrow>
          (let newScene =
                 \<lparr>s_id = id', s_title = title, s_chapter = so_chapter opts,
                  s_order = int (length (scenes memory)),
                  s_characters = (case so_characters opts of None \<Rightarrow> [] | Some cs \<Rightarrow> cs),
                  s_emotionTags = (case so_emotionTags opts of None \<Rightarrow> [] | Some ts \<Rightarrow> ts),
                  s_cuts = [],
                  s_narrationTone = Some (or_default (so_narrationTone opts) []),
                  s_notes = Some (or_default (so_notes opts) []),
                  s_created = created\<rparr>;
               memory' = memory\<lparr>scenes := scenes memory @ [newScene]\<rparr>
           in (fst (saveMemory clk s memory'), Some newScene)))"

text \<open>\<open>forEach((scene, idx) => { scene.order = idx })\<close> on an array of distinct objects.\<close>

definition renumber_scenes :: "Scene list \<Rightarrow> Scene list" where
  "renumber_scenes scs = map (\<lambda>(idx, scene). scene\<lparr>s_order := int idx\<rparr>) (enumerate 0 scs)"

definition renumber_cuts :: "Cut list \<Rightarrow> Cut list" where
  "renumber_cuts cs = map (\<lambda>(idx, cut). cut\<lparr>cut_order := int idx\<rparr>) (enumerate 0 cs)"

definition removeScene :: "save_clock \<Rightarrow> fs \<Rightarrow> string \<Rightarrow> fs \<times> bool" where
  "removeScene clk s sceneId =
     (case loadMemory s of
        None \<Rightarrow> (s, False)
      | Some memory \<Rightarrow>
          (case findIndex (\<lambda>sc. s_id sc = sceneId) (scenes memory) of
             None \<Rightarrow> (s, False)
           | Some index \<Rightarrow>
               (let memory' = memory\<lparr>scenes := renumber_scenes (splice1 index (scenes memory))\<rparr>
                in (fst (saveMemory clk s memory'), True))))"

record CutInput =
  ci_type :: CutType
  ci_content :: string
  ci_character :: "string option"
  ci_emotionTag :: "string option"

definition addCut :: "save_clock \<Rightarrow> fs \<Rightarrow> string \<Rightarrow> CutInput \<Rightarrow> fs \<times> bool" where
  "addCut clk s sceneId cutIn =
     (case loadMemory s of
        None \<Rightarrow> (s, False)
      | Some memory \<Rightarrow>
          (case findSceneById memory sceneId of
             None \<Rightarrow> (s, False)
           | Some (i, scene) \<Rightarrow>
               (let newCut = \<lparr>cut_order = int (length (s_cuts scene)), cut_type = ci_type cutIn,
                              cut_content = ci_content cutIn, cut_character = ci_character cutIn,
                              cut_emotionTag = ci_emotionTag cutIn\<rparr>;
                    scene' = scene\<lparr>s_cuts := s_cuts scene @ [newCut]\<rparr>;
                    memory' = memory\<lparr>scenes := (scenes memory)[i := scene']\<rparr>
                in (fst (saveMemory clk s memory'), True))))"

definition removeCut :: "save_clock \<Rightarrow> fs \<Rightarrow> string \<Rightarrow> int \<Rightarrow> fs \<times> bool" where
  "removeCut clk s sceneId cutOrder =
     (case loadMemory s of
        None \<Rightarrow> (s, False)
      | Some memory \<Rightarrow>
          (case findSceneById memory sceneId of
             None \<Rightarrow> (s, False)
           | Some (i, scene) \<Rightarrow>
               (case findIndex (\<lambda>c. cut_order c = cutOrder) (s_cuts scene) of
                  None \<Rightarrow> (s, False)
                | Some index \<Rightarrow>
                    (let scene' = scene\<lparr>s_cuts := renumber_cuts (splice1 index (s_cuts scene))\<rparr>;
                         memory' = memory\<lparr>scenes := (scenes memory)[i := scene']\<rparr>
                     in (fst (saveMemory clk s memory'), True)))))"

text \<open>
  The validation loop of \<open>reorderCuts\<close>: \<open>sortedOrder[i] !== i\<close> for some \<open>i\<close> fails.
\<close>

fun indices_from :: "int \<Rightarrow> int list \<Rightarrow> bool" where
  "indices_from i [] = True"
| "indices_from i (x # xs) = (x = i \<and> indices_from (i + 1) xs)"

text \<open>
  \<open>newOrder.map(oldIdx => scene.cuts[oldIdx])\<close> builds an array of references into
  \<open>scene.cuts\<close>, and the \<open>forEach\<close> assigns \<open>order\<close> through them, one after the other.
  The model keeps the objects in place (the list \<open>heap\<close>, addressed by old index), makes
  the assignments in the order of the loop and reads the new array off at the end. The
  code gets here only with \<open>newOrder\<close> validated, so every index is in range.
\<close>

fun assign_cut_orders :: "int list \<Rightarrow> nat \<Rightarrow> Cut list \<Rightarrow> Cut list" where
  "assign_cut_orders [] newIdx heap = heap"
| "assign_cut_orders (oldIdx # rest) newIdx heap =
     assign_cut_orders rest (Suc newIdx)
       (heap[nat oldIdx := (heap ! nat oldIdx)\<lparr>cut_order := int newIdx\<rparr>])"

definition reorderedCuts :: "int list \<Rightarrow> Cut list \<Rightarrow> Cut list" where
  "reorderedCuts newOrder cuts =
     map (\<lambda>oldIdx. assign_cut_orders newOrder 0 cuts ! nat oldIdx) newOrder"

definition reorderCuts :: "save_clock \<Rightarrow> fs \<Rightarrow> string \<Rightarrow> int list \<Rightarrow> fs \<times> bool" where
  "reorderCuts clk s sceneId newOrder =
     (case loadMemory s of
        None \<Rightarrow> (s, False)
      | Some memory \<Rightarrow>
          (case findSceneById memory sceneId of
             None \<Rightarrow> (s, False)
           | Some (i, scene) \<Rightarrow>
               (if length newOrder \<noteq> length (s_cuts scene) then (s, False)
                else if \<not> indices_from 0 (sort newOrder) then (s, False)
                else
                  (let scene' = scene\<lparr>s_cuts := reorderedCuts newOrder (s_cuts scene)\<rparr>;
                       memory' = memory\<lparr>scenes := (scenes memory)[i := scene']\<rparr>
                   in (fst (saveMemory clk s memory'), True)))))"

definition addEmotionTag :: "save_clock \<Rightarrow> fs \<Rightarrow> string \<Rightarrow> string \<Rightarrow> fs \<times> bool" where
  "addEmotionTag clk s sceneId tag =
     (case loadMemory s of
        None \<Rightarrow> (s, False)
      | Some memory \<Rightarrow>
          (case findSceneById memory sceneId of
             None \<Rightarrow> (s, False)
           | Some (i, scene) \<Rightarrow>
               (if tag \<in> set (s_emotionTags scene) then (s, True)
                else
                  (let scene' = scene\<lparr>s_emotionTags := s_emotionTags scene @ [tag]\<rparr>;
                       memory' = memory\<lparr>scenes := (scenes memory)[i := scene']\<rparr>
                   in (fst (saveMemory clk s memory'), True)))))"

definition removeEmotionTag :: "save_clock \<Rightarrow> fs \<Rightarrow> string \<Rightarrow> string \<Rightarrow> fs \<times> bool" where
  "removeEmotionTag clk s sceneId tag =
     (case loadMemory s of
        None \<Rightarrow> (s, False)
      | Some memory \<Rightarrow>
          (case findSceneById memory sceneId of
             None \<Rightarrow> (s, False)
           | Some (i, scene) \<Rightarrow>
               (if tag \<notin> set (s_emotionTags scene) then (s, True)
                else
                  (let scene' = scene\<lparr>s_emotionTags := remove1 tag (s_emotionTags scene)\<rparr>;
                       memory' = memory\<lparr>scenes := (scenes memory)[i := scene']\<rparr>
                   in (fst (saveMemory clk s memory'), True)))))"

text \<open>
  \<open>reorderScenes\<close>: \<open>new Map(memory.scenes.map(s => [s.id, s]))\<close> keeps one object per id
  (a later scene of the same id replaces the earlier one under the key). The new array
  \<open>sceneIds.map(id => sceneMap.get(id)!)\<close> holds references to the objects of the map, the
  same object wherever \<open>sceneIds\<close> repeats an id, and the \<open>forEach\<close> assigns \<open>order\<close>
  through them. The model makes the assignments on the map, in the order of the loop, and
  reads the array off at the end, as \<open>JSON.stringify\<close> does.
\<close>

definition sceneMap :: "Scene list \<Rightarrow> (string \<times> Scene) list" where
  "sceneMap scs = fold (\<lambda>sc m. AList.update (s_id sc) sc m) scs []"

fun assign_scene_orders :: "string list \<Rightarrow> nat \<Rightarrow> (string \<times> Scene) list \<Rightarrow> (string \<times> Scene) list" where
  "assign_scene_orders [] idx heap = heap"
| "assign_scene_orders (id' # rest) idx heap =
     assign_scene_orders rest (Suc idx)
       (case map_of heap id' of
          None \<Rightarrow> heap
        | Some scene \<Rightarrow> AList.update id' (scene\<lparr>s_order := int idx\<rparr>) heap)"

definition reorderedScenes :: "string list \<Rightarrow> Scene list \<Rightarrow> Scene list" where
  "reorderedScenes sceneIds scs =
     map (\<lambda>id'. the (map_of (assign_scene_orders sceneIds 0 (sceneMap scs)) id')) sceneIds"

definition reorderScenes :: "save_clock \<Rightarrow> fs \<Rightarrow> string list \<Rightarrow> fs \<times> bool" where
  "reorderScenes clk s sceneIds =
     (case loadMemory s of
        None \<Rightarrow> (s, False)
      | Some memory \<Rightarrow>
          (if length sceneIds \<noteq> length (scenes memory) then (s, False)
           else if list_ex (\<lambda>id'. map_of (sceneMap (scenes memory)) id' = None) sceneIds then (s, False)
           else
             (let memory' = memory\<lparr>scenes := reorderedScenes sceneIds (scenes memory)\<rparr>
              in (fst (saveMemory clk s memory'), True))))"

subsection \<open>Observing the backup directory\<close>

text \<open>
  \<open>dir_names\<close> is the listing of the backup directory (no name when the directory does not
  exist), \<open>backup_files\<close> the names in it that \<open>pruneBackups\<close> counts as backups, and
  \<open>save_all\<close> a sequence of \<open>saveMemory\<close> calls, each with its clock readings and
  document.
\<close>

definition backup_files :: "fs \<Rightarrow> string set" where
  "backup_files s =
     (case backup_dir s of None \<Rightarrow> {} | Some d \<Rightarrow> set (filter is_backup_name (map fst d)))"

definition dir_names :: "fs \<Rightarrow> string list" where
  "dir_names s = (case backup_dir s of None \<Rightarrow> [] | Some d \<Rightarrow> map fst d)"

definition save_all :: "(save_clock \<times> WriterMemory) list \<Rightarrow> fs \<Rightarrow> fs" where
  "save_all saves s = fold (\<lambda>save s'. fst (saveMemory (fst save) s' (snd save))) saves s"

section \<open>Example stores\<close>

text \<open>Concrete clock readings, documents and file systems, for the instances below.\<close>

definition clk0 :: save_clock where
  "clk0 = \<lparr>backup_iso = ''2024-01-24T10:00:00.000Z'', now_iso = ''2024-01-24T10:00:00.001Z''\<rparr>"

definition char_A :: Character where
  "char_A = \<lparr>c_id = ''char_1_a3f'', c_name = ''A'', c_aliases = [''Al''], c_arc = [], c_tone = [],
     c_speechLevel = Banmal, c_keywords = [], c_attitude = [], c_timeline = [], c_notes = [],
     c_created = ''2024-01-24T09:00:00.000Z'', c_updated = ''2024-01-24T09:00:00.000Z'',
     c_taboo = None, c_emotional_baseline = None, c_triggers = None\<rparr>"

definition rel_AB :: Relationship where
  "rel_AB = \<lparr>r_id = ''rel_1_k2z'', r_from = ''A'', r_to = ''B'', r_type = Romantic,
     r_dynamic = ''stable'', r_speechLevel = None, r_evolution = [], r_notes = None,
     r_created = ''2024-01-24T09:00:00.000Z''\<rparr>"

definition cut_n :: "int \<Rightarrow> string \<Rightarrow> Cut" where
  "cut_n n content = \<lparr>cut_order = n, cut_type = Narration, cut_content = content,
     cut_character = None, cut_emotionTag = None\<rparr>"

definition scene_n :: "string \<Rightarrow> int \<Rightarrow> Cut list \<Rightarrow> Scene" where
  "scene_n id' n cuts = \<lparr>s_id = id', s_title = ''t'', s_chapter = None, s_order = n,
     s_characters = [], s_emotionTags = [''joy''], s_cuts = cuts, s_narrationTone = Some [],
     s_notes = Some [], s_created = ''2024-01-24T09:00:00.000Z''\<rparr>"

definition doc1 :: WriterMemory where
  "doc1 = (fresh_memory ''2024-01-24T09:00:00.000Z'' ''novel'' ''melo'')
     \<lparr>characters := [(''A'', char_A)], relationships := [rel_AB],
      scenes := [scene_n ''s1'' 0 [cut_n 0 ''a'', cut_n 1 ''b'', cut_n 2 ''c''], scene_n ''s2'' 1 []]\<rparr>"

definition fs1 :: fs where
  "fs1 = \<lparr>writable = True, has_require = True, mem_dir = True,
     mem_file = Some (JSON_stringify doc1), tmp_file = None, backup_dir = Some []\<rparr>"

definition upd_tense :: RelationshipUpdates where
  "upd_tense = \<lparr>ru_type = None, ru_dynamic = Some ''tense'', ru_speechLevel = None,
     ru_evolution = None, ru_notes = None\<rparr>"

definition no_relationship_options :: RelationshipOptions where
  "no_relationship_options = \<lparr>ro_dynamic = None, ro_speechLevel = None, ro_notes = None\<rparr>"

definition no_character_options :: CharacterOptions where
  "no_character_options = \<lparr>co_arc = None, co_tone = None, co_speechLevel = None,
     co_attitude = None, co_keywords = None, co_notes = None\<rparr>"

definition stamps21 :: "string list" where
  "stamps21 =
     map (\<lambda>c. ''2024-01-24T10:00:00.0'' @ [c] @ ''0Z'') ''0123456789''
     @ map (\<lambda>c. ''2024-01-24T10:00:01.0'' @ [c] @ ''0Z'') ''0123456789''
     @ [''2024-01-24T10:00:02.000Z'']"

definition saves21 :: "(save_clock \<times> WriterMemory) list" where
  "saves21 = map (\<lambda>stamp. (\<lparr>backup_iso = stamp, now_iso = stamp\<rparr>, doc1)) stamps21"

definition saves_same_stamp :: "(save_clock \<times> WriterMemory) list" where
  "saves_same_stamp = replicate 21 (clk0, doc1)"

section \<open>Verification\<close>

lemmas ex_defs = clk0_def char_A_def rel_AB_def cut_n_def scene_n_def doc1_def fs1_def upd_tense_def
  fresh_memory_def no_relationship_options_def

lemmas io_defs = loadMemory_def saveMemory_def createBackup_def pruneBackups_def JSON_stringify_def
  backup_file_name_def is_backup_name_def startsWith_def endsWith_def MAX_BACKUPS_def
  getBackupPath_def

lemma writable_pruneBackups [simp]: "writable (pruneBackups s) = writable s"
  by (simp add: pruneBackups_def Let_def split: option.splits)

lemma writable_createBackup [simp]: "writable (fst (createBackup stamp s m)) = writable s"
  by (simp add: createBackup_def split: option.splits)

lemma has_require_pruneBackups [simp]: "has_require (pruneBackups s) = has_require s"
  by (simp add: pruneBackups_def Let_def split: option.splits)

lemma has_require_createBackup [simp]: "has_require (fst (createBackup stamp s m)) = has_require s"
  by (simp add: createBackup_def split: option.splits)

lemma loadMemory_fs1: "loadMemory fs1 = Some doc1"
  by (simp add: loadMemory_def fs1_def JSON_stringify_def)

lemma mem_file_pruneBackups [simp]: "mem_file (pruneBackups s) = mem_file s"
  by (simp add: pruneBackups_def Let_def split: option.splits)

lemma mem_file_createBackup [simp]: "mem_file (fst (createBackup stamp s m)) = mem_file s"
  by (simp add: createBackup_def split: option.splits)

lemma loadMemory_saveMemory_writable:
  "writable s \<Longrightarrow> loadMemory (fst (saveMemory clk s D))
     = Some (D\<lparr>project := (project D)\<lparr>p_updated := now_iso clk\<rparr>\<rparr>)"
  by (simp add: saveMemory_def Let_def loadMemory_def JSON_stringify_def split: option.splits)

lemma loadMemory_saveMemory_cases:
  assumes "loadMemory s = Some memory"
  shows "loadMemory (fst (saveMemory clk s D))
       = Some (if writable s then D\<lparr>project := (project D)\<lparr>p_updated := now_iso clk\<rparr>\<rparr> else memory)"
proof (cases "writable s")
  case True
  then show ?thesis by (simp add: loadMemory_saveMemory_writable)
next
  case False
  have "mem_file (fst (saveMemory clk s D)) = mem_file s"
    using False by (simp add: saveMemory_def Let_def split: option.splits)
  with assms False show ?thesis by (simp add: loadMemory_def)
qed

subsection \<open>Persistence: load after save\<close>

text \<open>
  C1. Whenever \<open>saveMemory\<close> writes a document \<open>D\<close> (it returns true), the next
  \<open>loadMemory\<close> returns the document as the save left it: \<open>D\<close> in every field, with
  \<open>project.updated\<close> set to the reading of the clock the save took.
\<close>

theorem saveMemory_loadMemory_roundtrip:
  assumes "saveMemory clk s D = (s', D', True)"
  shows "loadMemory s' = Some D' \<and> D' = D\<lparr>project := (project D)\<lparr>p_updated := now_iso clk\<rparr>\<rparr>"
  using assms
  by (auto simp: saveMemory_def Let_def loadMemory_def JSON_stringify_def split: if_splits)

theorem saveMemory_loadMemory_roundtrip_witness:
  "loadMemory (fst (saveMemory clk0 fs1 doc1)) = Some (fst (snd (saveMemory clk0 fs1 doc1)))
   \<and> fst (snd (saveMemory clk0 fs1 doc1))
       = doc1\<lparr>project := (project doc1)\<lparr>p_updated := now_iso clk0\<rparr>\<rparr>"
proof -
  have "snd (snd (saveMemory clk0 fs1 doc1)) = True"
    by (simp add: saveMemory_def fs1_def Let_def JSON_stringify_def)
  then have "saveMemory clk0 fs1 doc1
      = (fst (saveMemory clk0 fs1 doc1), fst (snd (saveMemory clk0 fs1 doc1)), True)"
    by (simp add: prod_eq_iff)
  then show ?thesis by (rule saveMemory_loadMemory_roundtrip)
qed

subsection \<open>Relationships\<close>

text \<open>
  C2. On the store \<open>fs1\<close>, which holds the relationship A-B with dynamic \<open>stable\<close>,
  \<open>updateRelationship('A', 'B', {dynamic: 'tense'})\<close> returns a relationship whose dynamic
  is \<open>tense\<close>, and the document on disk afterwards still holds the dynamic \<open>stable\<close>: the
  merged relationship is not persisted.
\<close>

theorem updateRelationship_update_not_persisted:
  "map_option r_dynamic (snd (updateRelationship clk0 fs1 ''A'' ''B'' upd_tense)) = Some ''tense''
   \<and> map_option (\<lambda>m. map r_dynamic (relationships m))
        (loadMemory (fst (updateRelationship clk0 fs1 ''A'' ''B'' upd_tense))) = Some [''stable'']"
  by (simp add: updateRelationship_def getRelationship_def same_pair_def assign_relationship_def
      ex_defs io_defs Let_def)

text \<open>
  C3. On the same store, \<open>addRelationshipEvent('A', 'B', 'first meeting', 'rain')\<close> returns
  the new event, and the document on disk afterwards holds the relationship A-B with the
  empty evolution timeline it had before: the event is not persisted.
\<close>

theorem addRelationshipEvent_event_not_persisted:
  "map_option re_change (snd (addRelationshipEvent ''2024-01-24T10:00:00.000Z'' clk0 fs1 ''A'' ''B''
        ''first meeting'' ''rain'' None)) = Some ''first meeting''
   \<and> map_option (\<lambda>m. map r_evolution (relationships m))
        (loadMemory (fst (addRelationshipEvent ''2024-01-24T10:00:00.000Z'' clk0 fs1 ''A'' ''B''
           ''first meeting'' ''rain'' None))) = Some [[]]"
  by (simp add: addRelationshipEvent_def getRelationship_def same_pair_def
      ex_defs io_defs Let_def)

text \<open>
  Both defects hold for every store, not only the example: whatever the arguments, the
  relationships on disk after \<open>updateRelationship\<close> and after \<open>addRelationshipEvent\<close> are
  the relationships that were there before.
\<close>

lemma updateRelationship_never_persists:
  assumes "loadMemory s = Some memory"
  shows "map_option relationships (loadMemory (fst (updateRelationship clk s a b updates)))
       = Some (relationships memory)"
  using assms loadMemory_saveMemory_cases [OF assms, of clk memory]
  by (simp add: updateRelationship_def Let_def split: option.splits)

lemma addRelationshipEvent_never_persists:
  assumes "loadMemory s = Some memory"
  shows "map_option relationships
           (loadMemory (fst (addRelationshipEvent timestamp clk s a b change catalyst sceneId)))
       = Some (relationships memory)"
  using assms loadMemory_saveMemory_cases [OF assms, of clk memory]
  by (simp add: addRelationshipEvent_def Let_def split: option.splits)

lemma same_pair_commute: "same_pair a b r = same_pair b a r"
  by (auto simp: same_pair_def)

text \<open>
  C5. When the stored document holds a relationship \<open>r\<close> between \<open>a\<close> and \<open>b\<close>, in either
  orientation, \<open>addRelationship(a, b, ...)\<close> and \<open>addRelationship(b, a, ...)\<close> both return
  null and leave the store as it is, and \<open>getRelationship(a, b)\<close> and
  \<open>getRelationship(b, a)\<close> return the same record, a stored relationship between \<open>a\<close> and
  \<open>b\<close>.
\<close>

theorem relationship_pair_unique:
  assumes "loadMemory s = Some memory"
    and "r \<in> set (relationships memory)"
    and "(r_from r = a \<and> r_to r = b) \<or> (r_from r = b \<and> r_to r = a)"
  shows "addRelationship id1 created1 clk1 s a b type1 opts1 = (s, None)
       \<and> addRelationship id2 created2 clk2 s b a type2 opts2 = (s, None)
       \<and> getRelationship s a b = getRelationship s b a
       \<and> (\<exists>r'. getRelationship s a b = Some r' \<and> r' \<in> set (relationships memory)
              \<and> ((r_from r' = a \<and> r_to r' = b) \<or> (r_from r' = b \<and> r_to r' = a)))"
proof -
  have sym: "same_pair b a = same_pair a b"
    by (rule ext) (rule same_pair_commute)
  have "same_pair a b r" using assms(3) by (simp add: same_pair_def)
  with assms(2) have "find (same_pair a b) (relationships memory) \<noteq> None"
    by (auto simp: find_None_iff)
  then obtain r' where r': "find (same_pair a b) (relationships memory) = Some r'"
    by auto
  then have "r' \<in> set (relationships memory)" "same_pair a b r'"
    by (auto simp: find_Some_iff)
  with r' assms(1) show ?thesis
    by (simp add: addRelationship_def getRelationship_def sym) (simp add: same_pair_def)
qed

theorem relationship_pair_unique_witness:
  "addRelationship ''rel_2_q0p'' ''2024-01-24T10:00:00.000Z'' clk0 fs1 ''A'' ''B'' Friendship
       no_relationship_options = (fs1, None)
   \<and> addRelationship ''rel_3_m4n'' ''2024-01-24T10:00:01.000Z'' clk0 fs1 ''B'' ''A'' Mentor
       no_relationship_options = (fs1, None)
   \<and> getRelationship fs1 ''A'' ''B'' = getRelationship fs1 ''B'' ''A''"
proof -
  have "rel_AB \<in> set (relationships doc1)"
    by (simp add: doc1_def)
  moreover have "(r_from rel_AB = ''A'' \<and> r_to rel_AB = ''B'')
      \<or> (r_from rel_AB = ''B'' \<and> r_to rel_AB = ''A'')"
    by (simp add: rel_AB_def)
  ultimately show ?thesis
    using relationship_pair_unique [OF loadMemory_fs1, of rel_AB "''A''" "''B''"
        "''rel_2_q0p''" "''2024-01-24T10:00:00.000Z''" clk0 Friendship no_relationship_options
        "''rel_3_m4n''" "''2024-01-24T10:00:01.000Z''" clk0 Mentor no_relationship_options]
    by simp
qed

subsection \<open>Scenes\<close>

text \<open>
  C4. On the store \<open>fs1\<close>, whose two scenes \<open>s1\<close> and \<open>s2\<close> have the orders 0 and 1,
  \<open>reorderScenes(['s1', 's1'])\<close> succeeds, and the document on disk afterwards holds the
  scene \<open>s1\<close> twice, both with order 1: the orders are no longer 0 and 1.
\<close>

theorem reorderScenes_repeated_id:
  "snd (reorderScenes clk0 fs1 [''s1'', ''s1'']) = True
   \<and> map_option (\<lambda>m. map (\<lambda>sc. (s_id sc, s_order sc)) (scenes m))
        (loadMemory (fst (reorderScenes clk0 fs1 [''s1'', ''s1''])))
       = Some [(''s1'', 1), (''s1'', 1)]"
  by (simp add: reorderScenes_def reorderedScenes_def sceneMap_def ex_defs io_defs Let_def)

text \<open>
  The other paths do restore the dense order: \<open>removeScene\<close> and \<open>removeCut\<close> renumber
  what is left, \<open>addScene\<close> appends at the current count, and \<open>reorderScenes\<close> with
  pairwise different ids numbers the new sequence \<open>0, ..., n - 1\<close>. Only a repeated id
  slips through the validation of \<open>reorderScenes\<close>.
\<close>

lemma enumerate_orders: "map (\<lambda>p. int (fst p)) (enumerate k xs) = map int [k..<k + length xs]"
proof (induction xs arbitrary: k)
  case Nil
  then show ?case by simp
next
  case (Cons x xs)
  have "[k..<k + length (x # xs)] = k # [Suc k..<Suc k + length xs]"
    by (simp add: upt_conv_Cons del: upt_Suc)
  with Cons.IH [of "Suc k"] show ?case by simp
qed

lemma renumber_scenes_orders: "map s_order (renumber_scenes scs) = map int [0..<length scs]"
  using enumerate_orders [of 0 scs]
  by (simp add: renumber_scenes_def comp_def case_prod_unfold)

lemma renumber_cuts_orders: "map cut_order (renumber_cuts cs) = map int [0..<length cs]"
  using enumerate_orders [of 0 cs]
  by (simp add: renumber_cuts_def comp_def case_prod_unfold)

lemma removeScene_dense:
  assumes "loadMemory s = Some memory" and "writable s"
    and "findIndex (\<lambda>sc. s_id sc = sceneId) (scenes memory) = Some index"
  shows "map_option (\<lambda>m. map s_order (scenes m)) (loadMemory (fst (removeScene clk s sceneId)))
       = Some (map int [0..<length (splice1 index (scenes memory))])"
  using assms
  by (simp add: removeScene_def Let_def loadMemory_saveMemory_writable renumber_scenes_orders)

lemma addScene_dense:
  assumes "loadMemory s = Some memory" and "writable s"
    and "map s_order (scenes memory) = map int [0..<length (scenes memory)]"
  shows "map_option (\<lambda>m. map s_order (scenes m))
           (loadMemory (fst (addScene id' created clk s title opts)))
       = Some (map int [0..<Suc (length (scenes memory))])"
  using assms
  by (simp add: addScene_def Let_def loadMemory_saveMemory_writable)

lemma assign_scene_orders_other:
  "id' \<notin> set ids \<Longrightarrow> map_of (assign_scene_orders ids k heap) id' = map_of heap id'"
  by (induction ids arbitrary: k heap) (auto simp: update_conv' split: option.splits)

lemma assign_scene_orders_nth:
  assumes "distinct ids" and "j < length ids"
  shows "map_of (assign_scene_orders ids k heap) (ids ! j)
       = map_option (\<lambda>sc. sc\<lparr>s_order := int (k + j)\<rparr>) (map_of heap (ids ! j))"
  using assms
proof (induction ids arbitrary: k heap j)
  case Nil
  then show ?case by simp
next
  case (Cons id' ids)
  show ?case
  proof (cases j)
    case 0
    with Cons.prems show ?thesis
      by (auto simp: assign_scene_orders_other update_conv' split: option.splits)
  next
    case (Suc j')
    with Cons.prems have j': "j' < length ids" and d: "distinct ids" and ne: "ids ! j' \<noteq> id'"
      by auto
    from Cons.IH [OF d j'] ne Suc show ?thesis
      by (auto simp: update_conv' add.assoc split: option.splits)
  qed
qed

lemma reorderedScenes_dense:
  assumes "distinct sceneIds"
    and "\<not> list_ex (\<lambda>id'. map_of (sceneMap scs) id' = None) sceneIds"
  shows "map s_order (reorderedScenes sceneIds scs) = map int [0..<length sceneIds]"
proof (rule nth_equalityI)
  show "length (map s_order (reorderedScenes sceneIds scs)) = length (map int [0..<length sceneIds])"
    by (simp add: reorderedScenes_def)
next
  fix j assume "j < length (map s_order (reorderedScenes sceneIds scs))"
  then have j: "j < length sceneIds" by (simp add: reorderedScenes_def)
  then have "sceneIds ! j \<in> set sceneIds" by simp
  with assms(2) obtain sc where sc: "map_of (sceneMap scs) (sceneIds ! j) = Some sc"
    by (auto simp: list_ex_iff)
  from assign_scene_orders_nth [OF assms(1) j, of 0 "sceneMap scs"] sc j
  show "map s_order (reorderedScenes sceneIds scs) ! j = map int [0..<length sceneIds] ! j"
    by (simp add: reorderedScenes_def)
qed

subsection \<open>Dialogue validation\<close>

text \<open>
  C8, as stated, fails on a tie: the text of two sentences, the first ending in U+C694
  (formal), the second in U+C57C (informal), has one formal and one informal match and no
  casual one, and \<open>detectSpeechLevel\<close> returns the informal level, not the mixed one.
\<close>

theorem detectSpeechLevel_tie_not_mixed:
  "formalCnt [0xC694, 0x2E, 0xC57C] = 1 \<and> informalCnt [0xC694, 0x2E, 0xC57C] = 1
   \<and> casualCnt [0xC694, 0x2E, 0xC57C] = 0 \<and> detectSpeechLevel [0xC694, 0x2E, 0xC57C] = Banmal"
  by (simp add: detectSpeechLevel_def formalCnt_def informalCnt_def casualCnt_def
      sentences_of_def trim_def js_space_def formal_def informal_def casual_def endsWith_def)

text \<open>
  C8, amended. \<open>detectSpeechLevel\<close> returns the mixed level exactly when no sentence
  matches any pattern; the formal level exactly when the formal count is greater than both
  others; the casual level exactly when the casual count is greater than the informal one
  and not less than the formal one; the informal level exactly when the informal count is
  positive and not less than either other count. The level returned has the greatest
  count, and a tie between the leading counts goes to casual before formal and to informal
  before both.
\<close>

theorem detectSpeechLevel_buckets:
  "(detectSpeechLevel t = Honhap) = (formalCnt t = 0 \<and> informalCnt t = 0 \<and> casualCnt t = 0)
   \<and> (detectSpeechLevel t = Jondaetmal) = (formalCnt t > informalCnt t \<and> formalCnt t > casualCnt t)
   \<and> (detectSpeechLevel t = Haeche) = (casualCnt t > informalCnt t \<and> casualCnt t \<ge> formalCnt t)
   \<and> (detectSpeechLevel t = Banmal)
       = (informalCnt t > 0 \<and> informalCnt t \<ge> casualCnt t \<and> informalCnt t \<ge> formalCnt t)"
  by (auto simp: detectSpeechLevel_def)

subsection \<open>Idempotent alias and tag operations\<close>

text \<open>
  C6, as stated, fails for \<open>removeAlias\<close>: on the store \<open>fs1\<close>, whose character \<open>A\<close> has
  the one alias \<open>Al\<close>, removing the absent alias \<open>Bob\<close> leaves the store as it is and
  returns false.
\<close>

theorem removeAlias_absent_reports_failure:
  "removeAlias ''2024-01-24T10:00:00.000Z'' clk0 fs1 ''A'' ''Bob'' = (fs1, Inr False)"
  by (simp add: removeAlias_def findCharacter_def get_property_def loadMemory_fs1)
    (simp add: ex_defs)

lemma findCharacter_doc1_A: "findCharacter doc1 ''A'' = Found ''A'' char_A"
  by (simp add: findCharacter_def get_property_def doc1_def)

lemma findSceneById_doc1_s1:
  "findSceneById doc1 ''s1'' = Some (0, scene_n ''s1'' 0 [cut_n 0 ''a'', cut_n 1 ''b'', cut_n 2 ''c''])"
  by (simp add: findSceneById_def doc1_def scene_n_def)

text \<open>
  A name that is no key of the character map and names a member of \<open>Object.prototype\<close>
  resolves to that member, also when a character has it as an alias, and both alias
  operations then throw.
\<close>

lemma findCharacter_prototype_name:
  "map_of (characters memory) n = None \<Longrightarrow> n \<in> set Object_prototype_names
     \<Longrightarrow> findCharacter memory n = Prototype_member"
  by (simp add: findCharacter_def get_property_def)

lemma alias_operations_throw:
  "loadMemory s = Some memory \<Longrightarrow> findCharacter memory n = Prototype_member
     \<Longrightarrow> addAlias updated clk s n alias = (s, Inl TypeError)
       \<and> removeAlias updated clk s n alias = (s, Inl TypeError)"
  by (simp add: addAlias_def removeAlias_def)

text \<open>
  C6, amended. Let the name or alias given to the call resolve to a character of the stored
  document. If the character has the alias, \<open>addAlias\<close> of that alias leaves the store
  unchanged and returns true; if it does not have the alias, \<open>removeAlias\<close> of it leaves
  the store unchanged and returns false. For a scene of the stored document that has the
  tag, \<open>addEmotionTag\<close> of that tag leaves the store unchanged and returns true;
  \<open>removeEmotionTag\<close> of a tag the scene does not have leaves the store unchanged and
  returns true.
\<close>

theorem alias_tag_noops:
  "(loadMemory s = Some memory \<and> findCharacter memory characterName = Found key character
      \<and> alias \<in> set (c_aliases character)
     \<longrightarrow> addAlias updated clk s characterName alias = (s, Inr True))
   \<and> (loadMemory s = Some memory \<and> findCharacter memory characterName = Found key character
      \<and> alias \<notin> set (c_aliases character)
     \<longrightarrow> removeAlias updated clk s characterName alias = (s, Inr False))
   \<and> (loadMemory s = Some memory \<and> findSceneById memory sceneId = Some (i, scene)
      \<and> tag \<in> set (s_emotionTags scene)
     \<longrightarrow> addEmotionTag clk s sceneId tag = (s, True))
   \<and> (loadMemory s = Some memory \<and> findSceneById memory sceneId = Some (i, scene)
      \<and> tag \<notin> set (s_emotionTags scene)
     \<longrightarrow> removeEmotionTag clk s sceneId tag = (s, True))"
  by (simp add: addAlias_def removeAlias_def addEmotionTag_def removeEmotionTag_def)

theorem alias_tag_noops_witness:
  "addAlias ''2024-01-24T10:00:00.000Z'' clk0 fs1 ''A'' ''Al'' = (fs1, Inr True)
   \<and> removeAlias ''2024-01-24T10:00:00.000Z'' clk0 fs1 ''A'' ''Ally'' = (fs1, Inr False)
   \<and> addEmotionTag clk0 fs1 ''s1'' ''joy'' = (fs1, True)
   \<and> removeEmotionTag clk0 fs1 ''s1'' ''fear'' = (fs1, True)"
proof -
  have a: "''Al'' \<in> set (c_aliases char_A)" "''Ally'' \<notin> set (c_aliases char_A)"
    by (simp_all add: char_A_def)
  have t: "''joy'' \<in> set (s_emotionTags (scene_n ''s1'' 0 [cut_n 0 ''a'', cut_n 1 ''b'', cut_n 2 ''c'']))"
    "''fear'' \<notin> set (s_emotionTags (scene_n ''s1'' 0 [cut_n 0 ''a'', cut_n 1 ''b'', cut_n 2 ''c'']))"
    by (simp_all add: scene_n_def)
  show ?thesis
    using alias_tag_noops [of fs1 doc1 "''A''" "''A''" char_A "''Al''"
        "''2024-01-24T10:00:00.000Z''" clk0 "''s1''" 0
        "scene_n ''s1'' 0 [cut_n 0 ''a'', cut_n 1 ''b'', cut_n 2 ''c'']" "''joy''"]
      alias_tag_noops [of fs1 doc1 "''A''" "''A''" char_A "''Ally''"
        "''2024-01-24T10:00:00.000Z''" clk0 "''s1''" 0
        "scene_n ''s1'' 0 [cut_n 0 ''a'', cut_n 1 ''b'', cut_n 2 ''c'']" "''fear''"]
      a t loadMemory_fs1 findCharacter_doc1_A findSceneById_doc1_s1
    by simp
qed

subsection \<open>Reordering cuts\<close>

lemma indices_from_iff:
  "indices_from k xs \<longleftrightarrow> xs = map (\<lambda>j. k + int j) [0..<length xs]"
proof (induction xs arbitrary: k)
  case Nil
  then show ?case by simp
next
  case (Cons x xs)
  have "[0..<Suc (length xs)] = 0 # map Suc [0..<length xs]"
    by (simp add: upt_conv_Cons map_Suc_upt del: upt_Suc)
  then have "map (\<lambda>j. k + int j) [0..<length (x # xs)]
      = k # map (\<lambda>j. (k + 1) + int j) [0..<length xs]"
    by (simp add: comp_def add.assoc del: upt_Suc)
  with Cons.IH [of "k + 1"] show ?case by simp
qed

lemma indices_from_0: "indices_from 0 xs \<longleftrightarrow> xs = map int [0..<length xs]"
  using indices_from_iff [of 0 xs] by simp

lemma length_assign_cut_orders [simp]: "length (assign_cut_orders xs k heap) = length heap"
  by (induction xs arbitrary: k heap) simp_all

lemma assign_cut_orders_other:
  "i \<notin> nat ` set xs \<Longrightarrow> assign_cut_orders xs k heap ! i = heap ! i"
  by (induction xs arbitrary: k heap) simp_all

lemma assign_cut_orders_nth:
  assumes "distinct xs" and "\<forall>x\<in>set xs. 0 \<le> x \<and> nat x < length heap" and "j < length xs"
  shows "assign_cut_orders xs k heap ! nat (xs ! j) = (heap ! nat (xs ! j))\<lparr>cut_order := int (k + j)\<rparr>"
  using assms
proof (induction xs arbitrary: k heap j)
  case Nil
  then show ?case by simp
next
  case (Cons x xs)
  let ?heap' = "heap[nat x := (heap ! nat x)\<lparr>cut_order := int k\<rparr>]"
  have inj: "nat x \<notin> nat ` set xs"
  proof
    assume "nat x \<in> nat ` set xs"
    then obtain y where y: "y \<in> set xs" "nat x = nat y" by auto
    with Cons.prems(2) have "x = y" by auto
    with y Cons.prems(1) show False by simp
  qed
  show ?case
  proof (cases j)
    case 0
    with inj Cons.prems(2) show ?thesis
      by (simp add: assign_cut_orders_other)
  next
    case (Suc j')
    with Cons.prems have j': "j' < length xs" by simp
    then have "xs ! j' \<in> set xs" by simp
    then have "nat (xs ! j') \<in> nat ` set xs" by (rule imageI)
    with inj have ne: "nat (xs ! j') \<noteq> nat x" by auto
    have "assign_cut_orders xs (Suc k) ?heap' ! nat (xs ! j')
        = (?heap' ! nat (xs ! j'))\<lparr>cut_order := int (Suc k + j')\<rparr>"
      using Cons.prems j' by (intro Cons.IH) auto
    with ne Suc show ?thesis by simp
  qed
qed

lemma sorted_indices_props:
  assumes "sort xs = map int [0..<m]"
  shows "distinct xs" and "\<forall>x\<in>set xs. 0 \<le> x \<and> nat x < m" and "length xs = m"
proof -
  have d: "distinct (map int [0..<m])"
    by (simp add: distinct_map inj_on_def)
  have "distinct (sort xs)" using assms d by simp
  then show "distinct xs" by simp
  have "set (sort xs) = set (map int [0..<m])" using assms by simp
  then have "set xs = set (map int [0..<m])" by simp
  then show "\<forall>x\<in>set xs. 0 \<le> x \<and> nat x < m" by auto
  have "length (sort xs) = length (map int [0..<m])" using assms by simp
  then show "length xs = m" by simp
qed

lemma reorderedCuts_permutation:
  assumes "sort newOrder = map int [0..<length cuts]"
  shows "reorderedCuts newOrder cuts
    = map (\<lambda>j. (cuts ! nat (newOrder ! j))\<lparr>cut_order := int j\<rparr>) [0..<length newOrder]"
proof (rule nth_equalityI)
  show "length (reorderedCuts newOrder cuts)
      = length (map (\<lambda>j. (cuts ! nat (newOrder ! j))\<lparr>cut_order := int j\<rparr>) [0..<length newOrder])"
    by (simp add: reorderedCuts_def)
next
  fix j assume "j < length (reorderedCuts newOrder cuts)"
  then have j: "j < length newOrder" by (simp add: reorderedCuts_def)
  from sorted_indices_props [OF assms]
  have "assign_cut_orders newOrder 0 cuts ! nat (newOrder ! j)
      = (cuts ! nat (newOrder ! j))\<lparr>cut_order := int (0 + j)\<rparr>"
    using j by (intro assign_cut_orders_nth) auto
  with j show "reorderedCuts newOrder cuts ! j
      = map (\<lambda>j. (cuts ! nat (newOrder ! j))\<lparr>cut_order := int j\<rparr>) [0..<length newOrder] ! j"
    by (simp add: reorderedCuts_def)
qed

text \<open>
  C9. For a scene of the stored document with \<open>m\<close> cuts: when the length of \<open>newOrder\<close>
  is not \<open>m\<close>, or \<open>newOrder\<close> sorted is not \<open>[0, ..., m - 1]\<close>, \<open>reorderCuts\<close> returns
  false and leaves the store, and so the scene's cuts and the document on disk, as they
  are. When \<open>newOrder\<close> is such a permutation (and the store can be written),
  \<open>reorderCuts\<close> returns true and the document on disk holds the scene with the cut list
  whose \<open>j\<close>-th cut is the former cut at position \<open>newOrder[j]\<close> with \<open>order\<close> \<open>j\<close>; the
  other scenes are as before.
\<close>

theorem reorderCuts_permutation:
  assumes "loadMemory s = Some memory" and "findSceneById memory sceneId = Some (i, scene)"
  shows "(length newOrder \<noteq> length (s_cuts scene)
            \<or> sort newOrder \<noteq> map int [0..<length (s_cuts scene)]
          \<longrightarrow> reorderCuts clk s sceneId newOrder = (s, False))
       \<and> (length newOrder = length (s_cuts scene)
            \<and> sort newOrder = map int [0..<length (s_cuts scene)] \<and> writable s
          \<longrightarrow> snd (reorderCuts clk s sceneId newOrder) = True
              \<and> map_option scenes (loadMemory (fst (reorderCuts clk s sceneId newOrder)))
                  = Some ((scenes memory)[i := scene\<lparr>s_cuts :=
                      map (\<lambda>j. (s_cuts scene ! nat (newOrder ! j))\<lparr>cut_order := int j\<rparr>)
                        [0..<length newOrder]\<rparr>]))"
proof (intro conjI impI)
  assume "length newOrder \<noteq> length (s_cuts scene)
            \<or> sort newOrder \<noteq> map int [0..<length (s_cuts scene)]"
  then have "length newOrder \<noteq> length (s_cuts scene) \<or> \<not> indices_from 0 (sort newOrder)"
    by (auto simp: indices_from_0)
  with assms show "reorderCuts clk s sceneId newOrder = (s, False)"
    by (auto simp: reorderCuts_def)
next
  assume ok: "length newOrder = length (s_cuts scene)
            \<and> sort newOrder = map int [0..<length (s_cuts scene)] \<and> writable s"
  then have "indices_from 0 (sort newOrder)"
    by (simp add: indices_from_0)
  with assms ok have eq: "reorderCuts clk s sceneId newOrder
      = (fst (saveMemory clk s (memory\<lparr>scenes := (scenes memory)
            [i := scene\<lparr>s_cuts := reorderedCuts newOrder (s_cuts scene)\<rparr>]\<rparr>)), True)"
    by (simp add: reorderCuts_def Let_def)
  then show "snd (reorderCuts clk s sceneId newOrder) = True" by simp
  from ok have "reorderedCuts newOrder (s_cuts scene)
      = map (\<lambda>j. (s_cuts scene ! nat (newOrder ! j))\<lparr>cut_order := int j\<rparr>) [0..<length newOrder]"
    by (intro reorderedCuts_permutation) simp
  with ok show "map_option scenes (loadMemory (fst (reorderCuts clk s sceneId newOrder)))
      = Some ((scenes memory)[i := scene\<lparr>s_cuts :=
          map (\<lambda>j. (s_cuts scene ! nat (newOrder ! j))\<lparr>cut_order := int j\<rparr>)
            [0..<length newOrder]\<rparr>])"
    by (simp add: eq loadMemory_saveMemory_writable)
qed


theorem reorderCuts_permutation_witness:
  "reorderCuts clk0 fs1 ''s1'' [0, 0, 1] = (fs1, False)
   \<and> snd (reorderCuts clk0 fs1 ''s1'' [2, 0, 1]) = True
   \<and> map_option (\<lambda>m. map (\<lambda>c. (cut_content c, cut_order c)) (s_cuts (scenes m ! 0)))
        (loadMemory (fst (reorderCuts clk0 fs1 ''s1'' [2, 0, 1])))
       = Some [(''c'', 0), (''a'', 1), (''b'', 2)]"
proof -
  let ?scene = "scene_n ''s1'' 0 [cut_n 0 ''a'', cut_n 1 ''b'', cut_n 2 ''c'']"
  have len: "length (s_cuts ?scene) = 3" by (simp add: scene_n_def)
  have upt3: "map int [0..<3] = [0, 1, 2]" by (simp add: upt_rec)
  have bad: "sort [0, 0, 1 :: int] \<noteq> map int [0..<length (s_cuts ?scene)]"
    by (simp add: len upt3)
  have good: "length [2, 0, 1 :: int] = length (s_cuts ?scene)
      \<and> sort [2, 0, 1 :: int] = map int [0..<length (s_cuts ?scene)] \<and> writable fs1"
    by (simp add: len upt3 fs1_def)
  have fail: "reorderCuts clk0 fs1 ''s1'' [0, 0, 1] = (fs1, False)"
    using reorderCuts_permutation [OF loadMemory_fs1 findSceneById_doc1_s1, of "[0, 0, 1]" clk0] bad
    by blast
  have ok: "snd (reorderCuts clk0 fs1 ''s1'' [2, 0, 1]) = True
      \<and> map_option scenes (loadMemory (fst (reorderCuts clk0 fs1 ''s1'' [2, 0, 1])))
          = Some ((scenes doc1)[0 := ?scene\<lparr>s_cuts :=
              map (\<lambda>j. (s_cuts ?scene ! nat ([2, 0, 1] ! j))\<lparr>cut_order := int j\<rparr>)
                [0..<length [2, 0, 1 :: int]]\<rparr>])"
    using reorderCuts_permutation [OF loadMemory_fs1 findSceneById_doc1_s1, of "[2, 0, 1]" clk0] good
    by blast
  then obtain m where m: "loadMemory (fst (reorderCuts clk0 fs1 ''s1'' [2, 0, 1])) = Some m"
    and sc: "scenes m = (scenes doc1)[0 := ?scene\<lparr>s_cuts :=
              map (\<lambda>j. (s_cuts ?scene ! nat ([2, 0, 1] ! j))\<lparr>cut_order := int j\<rparr>)
                [0..<length [2, 0, 1 :: int]]\<rparr>]"
    by auto
  have "map (\<lambda>c. (cut_content c, cut_order c)) (s_cuts (scenes m ! 0))
      = [(''c'', 0), (''a'', 1), (''b'', 2)]"
    by (simp add: sc doc1_def scene_n_def cut_n_def upt_rec)
  with fail ok m show ?thesis by simp
qed

subsection \<open>Characters created by addCharacter and the validator\<close>

lemma map_of_insert_property:
  "map_of obj k = None \<Longrightarrow> map_of (insert_property k v obj) k = Some v"
  by (induction obj) (auto split: option.splits if_splits)

lemma map_of_set_property: "map_of (set_property k v obj) k = Some v"
  by (simp add: set_property_def map_of_insert_property update_conv')

lemma character_errors_mismatch:
  "(k, c) \<in> set cs \<Longrightarrow> c_id c \<noteq> k \<Longrightarrow>
   (''Character key \"'' @ k @ ''\" does not match character.id \"'' @ c_id c @ ''\"'')
     \<in> set (concat (map character_errors cs))"
  by (force simp: character_errors_def)

text \<open>
  When \<open>addCharacter\<close> succeeds: on a loaded store, for a name that is neither a key of
  the character map nor the name of a member of \<open>Object.prototype\<close>. For every other name
  it returns null and leaves the store as it is.
\<close>

lemma addCharacter_result:
  assumes "loadMemory s = Some memory"
  shows "addCharacter id' created updated clk s n opts =
     (if map_of (characters memory) n = None \<and> n \<notin> set Object_prototype_names
      then (fst (saveMemory clk s (memory\<lparr>characters := set_property n
                \<lparr>c_id = id', c_name = n, c_aliases = [],
                 c_arc = or_default (co_arc opts) [], c_tone = or_default (co_tone opts) [],
                 c_speechLevel = (case co_speechLevel opts of None \<Rightarrow> Banmal | Some l \<Rightarrow> l),
                 c_keywords = (case co_keywords opts of None \<Rightarrow> [] | Some ks \<Rightarrow> ks),
                 c_attitude = or_default (co_attitude opts) [], c_timeline = [],
                 c_notes = or_default (co_notes opts) [],
                 c_created = created, c_updated = updated,
                 c_taboo = None, c_emotional_baseline = None, c_triggers = None\<rparr>
                (characters memory)\<rparr>)),
            Some \<lparr>c_id = id', c_name = n, c_aliases = [],
                 c_arc = or_default (co_arc opts) [], c_tone = or_default (co_tone opts) [],
                 c_speechLevel = (case co_speechLevel opts of None \<Rightarrow> Banmal | Some l \<Rightarrow> l),
                 c_keywords = (case co_keywords opts of None \<Rightarrow> [] | Some ks \<Rightarrow> ks),
                 c_attitude = or_default (co_attitude opts) [], c_timeline = [],
                 c_notes = or_default (co_notes opts) [],
                 c_created = created, c_updated = updated,
                 c_taboo = None, c_emotional_baseline = None, c_triggers = None\<rparr>)
      else (s, None))"
  using assms
  by (simp add: addCharacter_def get_property_def Let_def split: option.splits)

text \<open>
  C10. For a loaded store and a name \<open>n\<close> that is not a key of the character map, a
  successful \<open>addCharacter(n, ...)\<close> returns a character whose id is the generated id, and
  the document on disk holds it under the key \<open>n\<close>. Whenever the generated id differs
  from \<open>n\<close>, \<open>validateMemory\<close> on that document reports the error
  \<open>Character key "n" does not match character.id "<id>"\<close> and \<open>valid\<close> is false.
\<close>

theorem addCharacter_fails_validation:
  assumes "loadMemory s = Some memory"
    and "map_of (characters memory) n = None"
    and "addCharacter (generateId ''char'' ts rand) created updated clk s n opts
           = (s', Some character)"
    and "writable s"
  shows "c_id character = generateId ''char'' ts rand \<and> c_name character = n
      \<and> (\<exists>memory'. loadMemory s' = Some memory'
            \<and> map_of (characters memory') n = Some character
            \<and> (generateId ''char'' ts rand \<noteq> n \<longrightarrow>
                 (''Character key \"'' @ n @ ''\" does not match character.id \"''
                    @ generateId ''char'' ts rand @ ''\"'') \<in> set (errors (validateMemory memory'))
                 \<and> \<not> valid (validateMemory memory')))"
proof -
  define gid where "gid = generateId ''char'' ts rand"
  define memory1 where "memory1 = memory\<lparr>characters := set_property n character (characters memory)\<rparr>"
  define memory' where "memory' = memory1\<lparr>project := (project memory1)\<lparr>p_updated := now_iso clk\<rparr>\<rparr>"
  note res = addCharacter_result [OF assms(1), of gid created updated clk n opts]
  from assms(3) res have ok: "map_of (characters memory) n = None \<and> n \<notin> set Object_prototype_names"
    unfolding gid_def by (auto split: if_splits)
  with assms(3) res have cid: "c_id character = gid" "c_name character = n"
    and s': "s' = fst (saveMemory clk s memory1)"
    unfolding gid_def memory1_def by auto
  have load: "loadMemory s' = Some memory'"
    using assms(4) by (simp add: s' memory'_def loadMemory_saveMemory_writable)
  have chars: "characters memory' = set_property n character (characters memory)"
    by (simp add: memory'_def memory1_def)
  have lookup: "map_of (characters memory') n = Some character"
    by (simp add: chars map_of_set_property)
  then have mem: "(n, character) \<in> set (characters memory')"
    by (rule map_of_SomeD)
  have err: "(''Character key \"'' @ n @ ''\" does not match character.id \"'' @ gid @ ''\"'')
      \<in> set (errors (validateMemory memory'))" if "gid \<noteq> n"
    using character_errors_mismatch [OF mem] that cid
    by (simp add: validateMemory_def validation_errors_def)
  have "\<not> valid (validateMemory memory')" if "gid \<noteq> n"
    using err [OF that] by (auto simp: validateMemory_def)
  with load lookup cid err show ?thesis
    unfolding gid_def [symmetric] by blast
qed

theorem addCharacter_fails_validation_witness:
  "\<exists>s' character memory'.
      addCharacter (generateId ''char'' 7 ''a3f'') ''2024-01-24T10:00:00.000Z''
        ''2024-01-24T10:00:00.000Z'' clk0 fs1 ''B'' no_character_options = (s', Some character)
      \<and> c_id character = ''char_7_a3f'' \<and> c_name character = ''B''
      \<and> loadMemory s' = Some memory'
      \<and> map_of (characters memory') ''B'' = Some character
      \<and> (''Character key \"B\" does not match character.id \"char_7_a3f\"'')
           \<in> set (errors (validateMemory memory'))
      \<and> \<not> valid (validateMemory memory')"
proof -
  have gid: "generateId ''char'' 7 ''a3f'' = ''char_7_a3f''"
    by code_simp
  have absent: "map_of (characters doc1) ''B'' = None"
    by (simp add: doc1_def)
  have w: "writable fs1"
    by (simp add: fs1_def)
  have "''B'' \<notin> set Object_prototype_names"
    by (simp add: Object_prototype_names_def)
  with absent obtain s' character where
    add: "addCharacter (generateId ''char'' 7 ''a3f'') ''2024-01-24T10:00:00.000Z''
        ''2024-01-24T10:00:00.000Z'' clk0 fs1 ''B'' no_character_options = (s', Some character)"
    using addCharacter_result [OF loadMemory_fs1, of "generateId ''char'' 7 ''a3f''"
        "''2024-01-24T10:00:00.000Z''" "''2024-01-24T10:00:00.000Z''" clk0 "''B''"
        no_character_options]
    by simp
  from addCharacter_fails_validation [OF loadMemory_fs1 absent add w] add show ?thesis
    by (auto simp: gid)
qed

text \<open>
  For the name of a member of \<open>Object.prototype\<close>, which is no key of the map either,
  \<open>addCharacter\<close> returns null and writes nothing.
\<close>

lemma addCharacter_prototype_name:
  "addCharacter ''char_7_a3f'' ''2024-01-24T10:00:00.000Z'' ''2024-01-24T10:00:00.000Z'' clk0 fs1
     ''constructor'' no_character_options = (fs1, None)"
  using addCharacter_result [OF loadMemory_fs1, of "''char_7_a3f''" "''2024-01-24T10:00:00.000Z''"
      "''2024-01-24T10:00:00.000Z''" clk0 "''constructor''" no_character_options]
  by (simp add: Object_prototype_names_def)

subsection \<open>Backup retention\<close>

lemma is_backup_name_backup_file_name [simp]: "is_backup_name (backup_file_name stamp)"
  by (simp add: is_backup_name_def backup_file_name_def startsWith_def endsWith_def)

lemma unlink_oldest_keys:
  "fst ` set (unlink_oldest files d) = fst ` set d - set (take (length files - MAX_BACKUPS) files)"
proof (induction files arbitrary: d)
  case Nil
  then show ?case by simp
next
  case (Cons oldest rest)
  have del: "fst ` set (AList.delete oldest d) = fst ` set d - {oldest}"
    using delete_keys [of oldest d] by (metis set_map set_removeAll)
  show ?case
  proof (cases "length (oldest # rest) > MAX_BACKUPS")
    case True
    then have "length (oldest # rest) - MAX_BACKUPS = Suc (length rest - MAX_BACKUPS)"
      by simp
    then have "take (length (oldest # rest) - MAX_BACKUPS) (oldest # rest)
        = oldest # take (length rest - MAX_BACKUPS) rest"
      by simp
    with True Cons.IH [of "AList.delete oldest d"] del show ?thesis
      by auto
  next
    case False
    then show ?thesis by simp
  qed
qed

lemma distinct_unlink_oldest:
  "distinct (map fst d) \<Longrightarrow> distinct (map fst (unlink_oldest files d))"
  by (induction files arbitrary: d) (simp_all add: distinct_delete)

lemma sorted_drop_newest:
  fixes files :: "'a::linorder list"
  assumes "sorted files" and "distinct files"
  shows "set (drop n files) \<subseteq> set files"
    and "card (set (drop n files)) = length files - n"
    and "\<forall>x\<in>set files - set (drop n files). \<forall>y\<in>set (drop n files). x < y"
proof -
  show "set (drop n files) \<subseteq> set files" by (rule set_drop_subset)
  show "card (set (drop n files)) = length files - n"
    using assms(2) by (simp add: distinct_card)
  have split: "files = take n files @ drop n files" by simp
  have "sorted (take n files @ drop n files)" using assms(1) by simp
  then have le: "\<forall>x\<in>set (take n files). \<forall>y\<in>set (drop n files). x \<le> y"
    by (simp only: sorted_append) blast
  have "distinct (take n files @ drop n files)" using assms(2) by simp
  then have disj: "set (take n files) \<inter> set (drop n files) = {}"
    by (simp only: distinct_append)
  have cover: "set files = set (take n files) \<union> set (drop n files)"
    by (metis split set_append)
  show "\<forall>x\<in>set files - set (drop n files). \<forall>y\<in>set (drop n files). x < y"
  proof (intro ballI)
    fix x y assume x: "x \<in> set files - set (drop n files)" and y: "y \<in> set (drop n files)"
    from x cover have xt: "x \<in> set (take n files)" by auto
    with le y have "x \<le> y" by blast
    moreover from xt y disj have "x \<noteq> y" by auto
    ultimately show "x < y" by simp
  qed
qed

lemma set_drop_distinct:
  "distinct xs \<Longrightarrow> set (drop n xs) = set xs - set (take n xs)"
proof -
  assume "distinct xs"
  then have "distinct (take n xs @ drop n xs)" by simp
  then have "set (take n xs) \<inter> set (drop n xs) = {}"
    by (simp only: distinct_append)
  moreover have "set xs = set (take n xs) \<union> set (drop n xs)"
    by (metis append_take_drop_id set_append)
  ultimately show ?thesis by auto
qed

lemma pruneBackups_newest:
  assumes "writable s" and "has_require s" and "backup_dir s = Some d" and "distinct (map fst d)"
  shows "backup_files (pruneBackups s)
      = set (drop (length (sort (filter is_backup_name (map fst d))) - MAX_BACKUPS)
               (sort (filter is_backup_name (map fst d))))"
    and "distinct (dir_names (pruneBackups s))"
proof -
  let ?files = "sort (filter is_backup_name (map fst d))"
  let ?n = "length ?files - MAX_BACKUPS"
  have dir: "backup_dir (pruneBackups s) = Some (unlink_oldest ?files d)"
    using assms(1,2,3) by (simp add: pruneBackups_def Let_def)
  have dfiles: "distinct ?files" using assms(4) by simp
  have "backup_files (pruneBackups s)
      = {k \<in> fst ` set (unlink_oldest ?files d). is_backup_name k}"
    by (auto simp: backup_files_def dir)
  also have "\<dots> = {k \<in> fst ` set d. is_backup_name k} - set (take ?n ?files)"
    by (auto simp: unlink_oldest_keys)
  also have "{k \<in> fst ` set d. is_backup_name k} = set ?files"
    by auto
  also have "set ?files - set (take ?n ?files) = set (drop ?n ?files)"
    using set_drop_distinct [OF dfiles, of ?n] by simp
  finally show "backup_files (pruneBackups s) = set (drop ?n ?files)" .
  show "distinct (dir_names (pruneBackups s))"
    using assms(4) by (simp add: dir_names_def dir distinct_unlink_oldest)
qed

lemma createBackup_newest:
  assumes "writable s" and "has_require s" and "distinct (dir_names s)"
  shows "backup_files (fst (createBackup stamp s m))
           \<subseteq> insert (backup_file_name stamp) (backup_files s)"
    and "card (backup_files (fst (createBackup stamp s m)))
           = min MAX_BACKUPS (card (insert (backup_file_name stamp) (backup_files s)))"
    and "\<forall>x\<in>insert (backup_file_name stamp) (backup_files s)
              - backup_files (fst (createBackup stamp s m)).
           \<forall>y\<in>backup_files (fst (createBackup stamp s m)). x < y"
    and "distinct (dir_names (fst (createBackup stamp s m)))"
proof -
  let ?name = "backup_file_name stamp"
  define d where "d = (case backup_dir s of None \<Rightarrow> [] | Some d \<Rightarrow> d)"
  define d1 where "d1 = AList.update ?name (JSON_stringify m) d"
  define s1 where "s1 = (case backup_dir s of
       None \<Rightarrow> s\<lparr>mem_dir := True, backup_dir := Some d1\<rparr>
     | Some d' \<Rightarrow> s\<lparr>backup_dir := Some d1\<rparr>)"
  define files where "files = sort (filter is_backup_name (map fst d1))"
  have cb: "fst (createBackup stamp s m) = pruneBackups s1"
    using assms(1) by (simp add: createBackup_def s1_def d1_def d_def split: option.splits)
  have w1: "writable s1" and r1: "has_require s1" and dir1: "backup_dir s1 = Some d1"
    using assms(1,2) by (simp_all add: s1_def split: option.splits)
  have dd: "distinct (map fst d)"
    using assms(3) by (simp add: dir_names_def d_def split: option.splits)
  then have dd1: "distinct (map fst d1)"
    by (simp add: d1_def distinct_update)
  have bf: "backup_files s = {k \<in> fst ` set d. is_backup_name k}"
    by (auto simp: backup_files_def d_def split: option.splits)
  have "set files = {k \<in> fst ` set d1. is_backup_name k}"
    by (auto simp: files_def)
  also have "\<dots> = insert ?name (backup_files s)"
    by (auto simp: d1_def dom_update bf)
  finally have sf: "set files = insert ?name (backup_files s)" .
  have sorted: "sorted files" and dist: "distinct files"
    using dd1 by (simp_all add: files_def)
  have B: "backup_files (fst (createBackup stamp s m)) = set (drop (length files - MAX_BACKUPS) files)"
    using pruneBackups_newest(1) [OF w1 r1 dir1 dd1] by (simp add: cb files_def)
  show "backup_files (fst (createBackup stamp s m)) \<subseteq> insert ?name (backup_files s)"
    using sorted_drop_newest(1) [OF sorted dist] by (simp add: B sf [symmetric])
  have "card (set files) = length files" using dist by (rule distinct_card)
  then show "card (backup_files (fst (createBackup stamp s m)))
      = min MAX_BACKUPS (card (insert ?name (backup_files s)))"
    using sorted_drop_newest(2) [OF sorted dist, of "length files - MAX_BACKUPS"]
    by (simp add: B sf [symmetric] min_def)
  show "\<forall>x\<in>insert ?name (backup_files s) - backup_files (fst (createBackup stamp s m)).
           \<forall>y\<in>backup_files (fst (createBackup stamp s m)). x < y"
    using sorted_drop_newest(3) [OF sorted dist, of "length files - MAX_BACKUPS"]
    by (simp add: B sf [symmetric])
  show "distinct (dir_names (fst (createBackup stamp s m)))"
    using pruneBackups_newest(2) [OF w1 r1 dir1 dd1] by (simp add: cb)
qed


lemma newest_compose:
  fixes A B B' :: "'a::linorder set"
  assumes fin: "finite A" and sub: "B \<subseteq> A" and card: "card B = min k (card A)"
    and ord: "\<forall>x\<in>A - B. \<forall>y\<in>B. x < y"
    and sub': "B' \<subseteq> insert n B" and card': "card B' = min k (card (insert n B))"
    and ord': "\<forall>x\<in>insert n B - B'. \<forall>y\<in>B'. x < y"
  shows "B' \<subseteq> insert n A"
    and "card B' = min k (card (insert n A))"
    and "\<forall>x\<in>insert n A - B'. \<forall>y\<in>B'. x < y"
proof -
  have finB: "finite B" using fin sub by (rule rev_finite_subset)
  show "B' \<subseteq> insert n A" using sub sub' by auto
  show "card B' = min k (card (insert n A))"
  proof (cases "B = A")
    case True
    with card' show ?thesis by simp
  next
    case False
    with sub have "B \<subset> A" by auto
    with fin have lt: "card B < card A" by (rule psubset_card_mono)
    with card have k: "card B = k" "k < card A" by (auto simp: min_def split: if_splits)
    have "card A \<le> card (insert n A)" using fin by (simp add: card_insert_if)
    moreover have "card B \<le> card (insert n B)" using finB by (simp add: card_insert_if)
    ultimately show ?thesis using k card' by (simp add: min_def)
  qed
  show "\<forall>x\<in>insert n A - B'. \<forall>y\<in>B'. x < y"
  proof (intro ballI)
    fix x y assume x: "x \<in> insert n A - B'" and y: "y \<in> B'"
    show "x < y"
    proof (cases "x \<in> insert n B")
      case True
      with x y ord' show ?thesis by blast
    next
      case False
      with x have xA: "x \<in> A - B" and xn: "x \<noteq> n" by auto
      show ?thesis
      proof (cases "y \<in> B")
        case True
        with xA ord show ?thesis by blast
      next
        case False
        with y sub' have yn: "y = n" and nB: "n \<notin> B" by auto
        from xA sub have "B \<subset> A" by auto
        with fin have "card B < card A" by (rule psubset_card_mono)
        with card have k: "card B = k" by (auto simp: min_def split: if_splits)
        have ci: "card (insert n B) = Suc k" using finB nB k by simp
        with card' have "card B' = k" by (simp add: min_def)
        with ci have "card B' < card (insert n B)" by simp
        moreover have "finite (insert n B)" using finB by simp
        ultimately have "B' \<noteq> insert n B" by auto
        with sub' obtain z where z: "z \<in> insert n B" "z \<notin> B'" by auto
        with y yn have zB: "z \<in> B" by auto
        from z y ord' have "z < y" by blast
        moreover from xA zB ord have "x < z" by blast
        ultimately show ?thesis by simp
      qed
    qed
  qed
qed

lemma backup_files_cong: "backup_dir a = backup_dir b \<Longrightarrow> backup_files a = backup_files b"
  by (simp add: backup_files_def)

lemma dir_names_cong: "backup_dir a = backup_dir b \<Longrightarrow> dir_names a = dir_names b"
  by (simp add: dir_names_def)

lemma finite_backup_files [simp]: "finite (backup_files s)"
  by (simp add: backup_files_def split: option.splits)

lemma saveMemory_existing:
  assumes "writable s" and "loadMemory s = Some m0"
  shows "fst (saveMemory clk s D)
     = (fst (createBackup (backup_iso clk) (s\<lparr>mem_dir := True\<rparr>) m0))
         \<lparr>tmp_file := None,
          mem_file := Some (JSON_stringify (D\<lparr>project := (project D)\<lparr>p_updated := now_iso clk\<rparr>\<rparr>))\<rparr>"
  using assms
  by (auto simp: saveMemory_def Let_def loadMemory_def split: option.splits)

lemma saveMemory_step:
  assumes "writable s" and "has_require s" and "loadMemory s = Some m0"
    and "distinct (dir_names s)"
  shows "writable (fst (saveMemory clk s D)) \<and> has_require (fst (saveMemory clk s D))"
    and "loadMemory (fst (saveMemory clk s D)) \<noteq> None"
    and "distinct (dir_names (fst (saveMemory clk s D)))"
    and "backup_files (fst (saveMemory clk s D))
           \<subseteq> insert (backup_file_name (backup_iso clk)) (backup_files s)"
    and "card (backup_files (fst (saveMemory clk s D)))
           = min MAX_BACKUPS (card (insert (backup_file_name (backup_iso clk)) (backup_files s)))"
    and "\<forall>x\<in>insert (backup_file_name (backup_iso clk)) (backup_files s)
              - backup_files (fst (saveMemory clk s D)).
           \<forall>y\<in>backup_files (fst (saveMemory clk s D)). x < y"
proof -
  let ?s1 = "s\<lparr>mem_dir := True\<rparr>"
  let ?s2 = "fst (createBackup (backup_iso clk) ?s1 m0)"
  note eq = saveMemory_existing [OF assms(1,3), of clk D]
  have w1: "writable ?s1" using assms(1) by simp
  have r1: "has_require ?s1" using assms(2) by simp
  have d1: "distinct (dir_names ?s1)" using assms(4) by (simp add: dir_names_def)
  have bf1: "backup_files ?s1 = backup_files s" by (simp add: backup_files_def)
  have dir: "backup_dir (fst (saveMemory clk s D)) = backup_dir ?s2"
    by (simp add: eq)
  have bf: "backup_files (fst (saveMemory clk s D)) = backup_files ?s2"
    using dir by (rule backup_files_cong)
  show "writable (fst (saveMemory clk s D)) \<and> has_require (fst (saveMemory clk s D))"
    using assms(1,2) by (simp add: eq)
  show "loadMemory (fst (saveMemory clk s D)) \<noteq> None"
    by (simp add: eq loadMemory_def JSON_stringify_def)
  show "distinct (dir_names (fst (saveMemory clk s D)))"
    using createBackup_newest(4) [OF w1 r1 d1, of "backup_iso clk" m0] dir_names_cong [OF dir]
    by simp
  show "backup_files (fst (saveMemory clk s D))
           \<subseteq> insert (backup_file_name (backup_iso clk)) (backup_files s)"
    using createBackup_newest(1) [OF w1 r1 d1, of "backup_iso clk" m0] by (simp add: bf bf1)
  show "card (backup_files (fst (saveMemory clk s D)))
           = min MAX_BACKUPS (card (insert (backup_file_name (backup_iso clk)) (backup_files s)))"
    using createBackup_newest(2) [OF w1 r1 d1, of "backup_iso clk" m0] by (simp add: bf bf1)
  show "\<forall>x\<in>insert (backup_file_name (backup_iso clk)) (backup_files s)
              - backup_files (fst (saveMemory clk s D)).
           \<forall>y\<in>backup_files (fst (saveMemory clk s D)). x < y"
    using createBackup_newest(3) [OF w1 r1 d1, of "backup_iso clk" m0] by (simp add: bf bf1)
qed

lemma save_all_snoc:
  "save_all (saves @ [save]) s = fst (saveMemory (fst save) (save_all saves s) (snd save))"
  by (simp add: save_all_def)

lemma save_all_invariant:
  assumes "writable s" and "has_require s" and "loadMemory s \<noteq> None"
    and "distinct (dir_names s)"
  shows "writable (save_all saves s) \<and> has_require (save_all saves s)
       \<and> loadMemory (save_all saves s) \<noteq> None
       \<and> distinct (dir_names (save_all saves s))"
proof (induction saves rule: rev_induct)
  case Nil
  with assms show ?case by (simp add: save_all_def)
next
  case (snoc save saves)
  then obtain m0 where "loadMemory (save_all saves s) = Some m0" by auto
  with snoc show ?case
    using saveMemory_step(1,2,3) [of "save_all saves s" m0 "fst save" "snd save"]
    by (simp add: save_all_snoc)
qed

lemma save_all_newest:
  assumes "writable s" and "has_require s" and "loadMemory s \<noteq> None"
    and "distinct (dir_names s)" and "saves \<noteq> []"
  shows "backup_files (save_all saves s)
           \<subseteq> backup_files s \<union> set (map (\<lambda>save. backup_file_name (backup_iso (fst save))) saves)
       \<and> card (backup_files (save_all saves s))
           = min MAX_BACKUPS (card (backup_files s
               \<union> set (map (\<lambda>save. backup_file_name (backup_iso (fst save))) saves)))
       \<and> (\<forall>x\<in>(backup_files s \<union> set (map (\<lambda>save. backup_file_name (backup_iso (fst save))) saves))
              - backup_files (save_all saves s).
           \<forall>y\<in>backup_files (save_all saves s). x < y)"
  using assms(5)
proof (induction saves rule: rev_induct)
  case Nil
  then show ?case by simp
next
  case (snoc save saves)
  let ?names = "\<lambda>xs. set (map (\<lambda>save. backup_file_name (backup_iso (fst save))) xs)"
  let ?n = "backup_file_name (backup_iso (fst save))"
  let ?s = "save_all saves s"
  let ?s' = "fst (saveMemory (fst save) ?s (snd save))"
  have all: "backup_files s \<union> ?names (saves @ [save]) = insert ?n (backup_files s \<union> ?names saves)"
    by simp
  from save_all_invariant [OF assms(1,2,3,4), of saves]
  obtain m0 where inv: "writable ?s" "has_require ?s" "loadMemory ?s = Some m0"
    "distinct (dir_names ?s)"
    by auto
  note step = saveMemory_step(4,5,6) [OF inv, of "fst save" "snd save"]
  show ?case
  proof (cases "saves = []")
    case True
    then have "?s = s" by (simp add: save_all_def)
    moreover have "save_all [save] s = fst (saveMemory (fst save) s (snd save))"
      by (simp add: save_all_def)
    ultimately show ?thesis
      using step True by simp
  next
    case False
    with snoc.IH have IH: "backup_files ?s \<subseteq> backup_files s \<union> ?names saves"
      "card (backup_files ?s) = min MAX_BACKUPS (card (backup_files s \<union> ?names saves))"
      "\<forall>x\<in>(backup_files s \<union> ?names saves) - backup_files ?s. \<forall>y\<in>backup_files ?s. x < y"
      by auto
    have fin: "finite (backup_files s \<union> ?names saves)" by simp
    from newest_compose [OF fin IH step]
    show ?thesis
      unfolding save_all_snoc all by blast
  qed
qed

lemma names_saves21:
  "distinct (map (\<lambda>save. backup_file_name (backup_iso (fst save))) saves21)"
proof -
  have "map (\<lambda>save. backup_file_name (backup_iso (fst save))) saves21
      = map backup_file_name stamps21"
    by (simp add: saves21_def comp_def)
  moreover have "distinct (map backup_file_name stamps21)"
    by (simp add: stamps21_def backup_file_name_def)
  ultimately show ?thesis by simp
qed

lemma backup_files_fs1: "backup_files fs1 = {}"
  by (simp add: backup_files_def fs1_def)

text \<open>
  C7, as stated, fails when saves share a backup file name. The name is made of the
  clock reading to the millisecond, so saves within one millisecond write the same
  backup file: after 21 saves of the store \<open>fs1\<close> with the one reading \<open>clk0\<close>, one
  backup file remains, not 20.
\<close>

theorem backup_retention_same_stamp:
  "length saves_same_stamp = 21 \<and> card (backup_files (save_all saves_same_stamp fs1)) = 1"
proof -
  let ?n = "backup_file_name (backup_iso clk0)"
  have w: "writable fs1" and r: "has_require fs1" by (simp_all add: fs1_def)
  have l: "loadMemory fs1 \<noteq> None" by (simp add: loadMemory_fs1)
  have d: "distinct (dir_names fs1)" by (simp add: dir_names_def fs1_def)
  have len: "length saves_same_stamp = 21" by (simp add: saves_same_stamp_def)
  then have ne: "saves_same_stamp \<noteq> []" by auto
  have names: "set (map (\<lambda>save. backup_file_name (backup_iso (fst save))) saves_same_stamp) = {?n}"
    by (simp add: saves_same_stamp_def)
  from save_all_newest [OF w r l d ne]
  have "card (backup_files (save_all saves_same_stamp fs1)) = min MAX_BACKUPS (card {?n})"
    unfolding names backup_files_fs1 by (elim conjE) (simp only: Un_empty_left)
  with len show ?thesis by (simp add: MAX_BACKUPS_def)
qed

text \<open>
  C7, amended. Take a store that can be written and whose \<open>memory.json\<close> loads (so every
  save makes a backup), with a backup directory that lists no name twice, and the module
  loaded so that \<open>require\<close> is bound. After more than 20 saves, the number of backup
  files that remain is the smaller of 20 and the number of different backup names there
  were (those in the directory before and those of the saves), so at most 20 remain; each
  of them is one of these backups; and every one of these backups that is gone has a name
  smaller than every name that remains: the greatest names are retained, the oldest are
  deleted first. When the backup file names of the saves are pairwise different, exactly
  20 remain.
\<close>

theorem backup_retention:
  assumes "writable s" and "has_require s" and "loadMemory s \<noteq> None"
    and "distinct (dir_names s)" and "length saves > 20"
  shows "card (backup_files (save_all saves s))
           = min 20 (card (backup_files s
               \<union> set (map (\<lambda>save. backup_file_name (backup_iso (fst save))) saves)))
       \<and> backup_files (save_all saves s)
           \<subseteq> backup_files s \<union> set (map (\<lambda>save. backup_file_name (backup_iso (fst save))) saves)
       \<and> (\<forall>x\<in>(backup_files s \<union> set (map (\<lambda>save. backup_file_name (backup_iso (fst save))) saves))
              - backup_files (save_all saves s).
           \<forall>y\<in>backup_files (save_all saves s). x < y)
       \<and> (distinct (map (\<lambda>save. backup_file_name (backup_iso (fst save))) saves)
           \<longrightarrow> card (backup_files (save_all saves s)) = 20)"
proof -
  let ?new = "set (map (\<lambda>save. backup_file_name (backup_iso (fst save))) saves)"
  from assms(5) have ne: "saves \<noteq> []" by auto
  note main = save_all_newest [OF assms(1,2,3,4) ne]
  have "card (backup_files (save_all saves s)) = 20"
    if dist: "distinct (map (\<lambda>save. backup_file_name (backup_iso (fst save))) saves)"
  proof -
    have "card ?new = length saves"
      using dist by (metis distinct_card length_map)
    moreover have "card ?new \<le> card (backup_files s \<union> ?new)"
      by (rule card_mono) simp_all
    ultimately have "20 < card (backup_files s \<union> ?new)"
      using assms(5) by simp
    with main show ?thesis
      by (simp add: MAX_BACKUPS_def min_def)
  qed
  with main show ?thesis
    by (simp add: MAX_BACKUPS_def)
qed

theorem backup_retention_witness:
  "card (backup_files (save_all saves21 fs1)) = 20
   \<and> backup_files (save_all saves21 fs1)
       \<subseteq> backup_files fs1 \<union> set (map (\<lambda>save. backup_file_name (backup_iso (fst save))) saves21)"
proof -
  have w: "writable fs1" and r: "has_require fs1" by (simp_all add: fs1_def)
  have l: "loadMemory fs1 \<noteq> None" by (simp add: loadMemory_fs1)
  have d: "distinct (dir_names fs1)" by (simp add: dir_names_def fs1_def)
  have n: "length saves21 > 20" by (simp add: saves21_def stamps21_def)
  from backup_retention [OF w r l d n] names_saves21 show ?thesis
    by (elim conjE) (intro conjI, blast+)
qed

text \<open>
  Where \<open>require\<close> is not bound (the file loaded as an ES module), \<open>pruneBackups\<close> deletes
  nothing: every save adds its backup, and the 21 saves that leave 20 backups above leave
  21 here.
\<close>

lemma pruneBackups_no_require: "\<not> has_require s \<Longrightarrow> pruneBackups s = s"
  by (simp add: pruneBackups_def Let_def split: option.splits)

lemma createBackup_no_require:
  assumes "writable s" and "\<not> has_require s"
  shows "backup_files (fst (createBackup stamp s m))
      = insert (backup_file_name stamp) (backup_files s)"
proof (cases "backup_dir s")
  case None
  with assms show ?thesis
    by (simp add: createBackup_def pruneBackups_no_require backup_files_def)
next
  case (Some d)
  have "{k \<in> fst ` set (AList.update (backup_file_name stamp) (JSON_stringify m) d). is_backup_name k}
      = insert (backup_file_name stamp) {k \<in> fst ` set d. is_backup_name k}"
    by (auto simp: dom_update)
  with Some assms show ?thesis
    by (simp add: createBackup_def pruneBackups_no_require backup_files_def)
qed

lemma save_all_no_require:
  assumes "writable s" and "\<not> has_require s" and "loadMemory s \<noteq> None"
  shows "writable (save_all saves s) \<and> \<not> has_require (save_all saves s)
       \<and> loadMemory (save_all saves s) \<noteq> None
       \<and> backup_files (save_all saves s)
           = backup_files s \<union> set (map (\<lambda>save. backup_file_name (backup_iso (fst save))) saves)"
proof (induction saves rule: rev_induct)
  case Nil
  with assms show ?case by (simp add: save_all_def)
next
  case (snoc save saves)
  let ?s = "save_all saves s"
  from snoc obtain m0 where inv: "writable ?s" "\<not> has_require ?s" "loadMemory ?s = Some m0"
    by auto
  note eq = saveMemory_existing [OF inv(1,3), of "fst save" "snd save"]
  have w1: "writable (?s\<lparr>mem_dir := True\<rparr>)" "\<not> has_require (?s\<lparr>mem_dir := True\<rparr>)"
    using inv by simp_all
  have "backup_files (fst (saveMemory (fst save) ?s (snd save)))
      = backup_files (fst (createBackup (backup_iso (fst save)) (?s\<lparr>mem_dir := True\<rparr>) m0))"
    by (rule backup_files_cong) (simp add: eq)
  also have "\<dots> = insert (backup_file_name (backup_iso (fst save))) (backup_files (?s\<lparr>mem_dir := True\<rparr>))"
    by (rule createBackup_no_require [OF w1])
  also have "backup_files (?s\<lparr>mem_dir := True\<rparr>) = backup_files ?s"
    by (simp add: backup_files_def)
  finally have bf: "backup_files (fst (saveMemory (fst save) ?s (snd save)))
      = insert (backup_file_name (backup_iso (fst save))) (backup_files ?s)" .
  have "writable (fst (saveMemory (fst save) ?s (snd save)))"
    "\<not> has_require (fst (saveMemory (fst save) ?s (snd save)))"
    "loadMemory (fst (saveMemory (fst save) ?s (snd save))) \<noteq> None"
    using inv by (simp_all add: eq loadMemory_def JSON_stringify_def)
  with bf snoc show ?case
    by (simp add: save_all_snoc)
qed

lemma backup_retention_no_require:
  "card (backup_files (save_all saves21 (fs1\<lparr>has_require := False\<rparr>))) = 21"
proof -
  have "writable (fs1\<lparr>has_require := False\<rparr>)" "\<not> has_require (fs1\<lparr>has_require := False\<rparr>)"
    "loadMemory (fs1\<lparr>has_require := False\<rparr>) \<noteq> None"
    by (simp_all add: fs1_def loadMemory_def JSON_stringify_def)
  from save_all_no_require [OF this, of saves21]
  have "backup_files (save_all saves21 (fs1\<lparr>has_require := False\<rparr>))
      = set (map (\<lambda>save. backup_file_name (backup_iso (fst save))) saves21)"
    by (simp add: backup_files_def fs1_def)
  moreover have "card (set (map (\<lambda>save. backup_file_name (backup_iso (fst save))) saves21))
      = length saves21"
    using distinct_card [OF names_saves21] by (simp only: length_map)
  ultimately have "card (backup_files (save_all saves21 (fs1\<lparr>has_require := False\<rparr>)))
      = length saves21"
    by (simp only:)
  then show ?thesis by (simp add: saves21_def stamps21_def)
qed

end
